theory Spec2Isabelle
  imports Main
begin

section \<open>The diagram expression evaluator (penrose-web/src/engine/Evaluator.ts)\<close>

subsection \<open>Numbers and autodiff scalars\<close>

text \<open>
  A JavaScript number that is not held in an \<open>IntV\<close>: an integer-valued double, or the
  quotient \<open>a / b\<close> of two of them, kept unevaluated (\<open>1.5\<close> is \<open>Quot 3 2\<close>; \<open>a / 0\<close>
  is an infinity or NaN in the program and stays the term \<open>Quot a 0\<close> here). The
  contents of an \<open>IntV\<close> are modelled as \<open>int\<close>: exact for the doubles below
  \<open>2 ^ 53\<close> in magnitude.
\<close>

datatype number = OfInt int | Quot int int

text \<open>
  Modelled from the spec: the autodiff primitive library (\<open>./Autodiff\<close>) is not part of
  the source; section 6 of the specification gives its interface: scalar operations
  take and return autodiff scalars, vector operations take and return same-length
  sequences of them. A \<open>VarAD\<close> is the node of the computation graph that the
  primitive builds; it is always an object, never \<open>undefined\<close>.
\<close>

datatype VarAD =
    ConstOf number
  | Differentiable number
  | Add VarAD VarAD
  | Sub VarAD VarAD
  | Mul VarAD VarAD
  | Div VarAD VarAD
  | Neg VarAD

definition constOf :: "number \<Rightarrow> VarAD" where
  "constOf x = ConstOf x"

definition differentiable :: "number \<Rightarrow> VarAD" where
  "differentiable x = Differentiable x"

definition add :: "VarAD \<Rightarrow> VarAD \<Rightarrow> VarAD" where
  "add v w = Add v w"

definition sub :: "VarAD \<Rightarrow> VarAD \<Rightarrow> VarAD" where
  "sub v w = Sub v w"

definition mul :: "VarAD \<Rightarrow> VarAD \<Rightarrow> VarAD" where
  "mul v w = Mul v w"

definition div_ad :: "VarAD \<Rightarrow> VarAD \<Rightarrow> VarAD" where
  "div_ad v w = Div v w"

definition neg :: "VarAD \<Rightarrow> VarAD" where
  "neg v = Neg v"

subsection \<open>Errors\<close>

text \<open>
  Every \<open>throw\<close> of the source is one of these. The names are the error kinds of
  section 7 of the specification; the source throws \<open>Error\<close> objects that differ by
  their message only, and the definitions below say at each throw which message it is;
  \<open>Rejected m\<close> is a throw with the message \<open>m\<close> that has no kind there.
  \<open>JSTypeError\<close> is the TypeError that the JavaScript runtime raises on a property
  read of \<open>undefined\<close>, on destructuring a value that is not iterable, or on calling
  \<open>undefined\<close>. \<open>StackOverflow\<close> is the RangeError of a recursion that does not end
  (the fuel of the model ran out). \<open>Unmodelled\<close> is not an exception of the program:
  it marks the places where the program goes on with a value this model does not
  represent (\<open>undefined\<close> handed to an autodiff primitive or stored as an array
  element, a sparse array, a non-integer number held in an \<open>IntV\<close>).
\<close>

datatype error =
    UnresolvedPath
  | TypeMismatch
  | IndexOutOfBounds
  | Unimplemented
  | InvalidOperand
  | UnsubstitutedVarying
  | UnsupportedListElement
  | UnexpectedGPI
  | UnknownExpression
  | LengthMismatch
  | Rejected string
  | JSTypeError
  | StackOverflow
  | Unmodelled

text \<open>
  Modelled from the spec: the vector primitives \<open>ops.vadd\<close>, \<open>ops.vsub\<close>,
  \<open>ops.vmul\<close>, \<open>ops.vdiv\<close>, \<open>ops.vneg\<close> of the absent autodiff library. The
  specification gives them for same-length sequences only; on sequences of different
  lengths the model stops.
\<close>

definition vadd :: "VarAD list \<Rightarrow> VarAD list \<Rightarrow> error + VarAD list" where
  "vadd v w = (if length v = length w then Inr (map2 add v w) else Inl Unmodelled)"

definition vsub :: "VarAD list \<Rightarrow> VarAD list \<Rightarrow> error + VarAD list" where
  "vsub v w = (if length v = length w then Inr (map2 sub v w) else Inl Unmodelled)"

definition vmul :: "VarAD \<Rightarrow> VarAD list \<Rightarrow> VarAD list" where
  "vmul c v = map (mul c) v"

definition vdiv :: "VarAD list \<Rightarrow> VarAD \<Rightarrow> VarAD list" where
  "vdiv v c = map (\<lambda>x. div_ad x c) v"

definition vneg :: "VarAD list \<Rightarrow> VarAD list" where
  "vneg v = map neg v"

subsection \<open>Values\<close>

text \<open>
  The contents of a style-domain value (a colour, a path, a file name), which the
  evaluator never looks into: a JavaScript string or some other object.
\<close>

datatype payload = PString string | PObject string

text \<open>
  \<open>Value<T>\<close>: an object \<open>{tag, contents}\<close>. \<open>OpaqueV t c\<close> stands for the
  style-domain variants, with their tag \<open>t\<close>, which is none of the nine tags before
  it. The last two constructors are the objects
  \<open>{tag: "FloatV", contents: undefined}\<close> and \<open>{tag: "VectorV", contents: undefined}\<close>,
  which the type \<open>Value<T>\<close> does not have and the evaluator can build all the same.
\<close>

datatype 'a Value =
    FloatV 'a
  | IntV int
  | BoolV bool
  | StrV string
  | VectorV "'a list"
  | MatrixV "'a list list"
  | TupV 'a 'a
  | ListV "'a list"
  | LListV "'a list list"
  | OpaqueV string payload
  | FloatV_undefined
  | VectorV_undefined

fun tagOf :: "'a Value \<Rightarrow> string" where
  "tagOf (FloatV _) = ''FloatV''"
| "tagOf (IntV _) = ''IntV''"
| "tagOf (BoolV _) = ''BoolV''"
| "tagOf (StrV _) = ''StrV''"
| "tagOf (VectorV _) = ''VectorV''"
| "tagOf (MatrixV _) = ''MatrixV''"
| "tagOf (TupV _ _) = ''TupV''"
| "tagOf (ListV _) = ''ListV''"
| "tagOf (LListV _) = ''LListV''"
| "tagOf (OpaqueV t _) = t"
| "tagOf FloatV_undefined = ''FloatV''"
| "tagOf VectorV_undefined = ''VectorV''"

datatype BinaryOp = BPlus | BMinus | Multiply | Divide | Exp

datatype UnaryOp = UPlus | UMinus

subsection \<open>The op evaluator\<close>

text \<open>\<open>intToFloat\<close>, given the contents of the \<open>IntV\<close>.\<close>

definition intToFloat :: "int \<Rightarrow> VarAD Value" where
  "intToFloat n = FloatV (constOf (OfInt n))"

text \<open>
  The branch \<open>FloatV\<close>, \<open>FloatV\<close> of \<open>evalBinOp\<close>. \<open>Exp\<close> throws
  \<open>Error("Pow op unimplemented")\<close> before the contents are read.
\<close>

definition binOpFloat :: "BinaryOp \<Rightarrow> VarAD Value \<Rightarrow> VarAD Value \<Rightarrow> error + VarAD Value" where
  "binOpFloat op v1 v2 =
     (case op of
        Exp \<Rightarrow> Inl Unimplemented
      | _ \<Rightarrow>
        (case (v1, v2) of
           (FloatV x, FloatV y) \<Rightarrow>
             Inr (FloatV (case op of
                            BPlus \<Rightarrow> add x y
                          | BMinus \<Rightarrow> sub x y
                          | Multiply \<Rightarrow> mul x y
                          | _ \<Rightarrow> div_ad x y))
         | _ \<Rightarrow> Inl Unmodelled))"

text \<open>
  The integers that a double holds exactly, and on which the sum, the difference, the
  product and the power of the program are the exact ones as long as the result is
  in the range too.
\<close>

definition exactInt :: "int \<Rightarrow> bool" where
  "exactInt a = (- (2 ^ 53) \<le> a \<and> a \<le> 2 ^ 53)"

definition exactIntV :: "int \<Rightarrow> error + VarAD Value" where
  "exactIntV c = (if exactInt c then Inr (IntV c) else Inl Unmodelled)"

text \<open>
  The branch \<open>IntV\<close>, \<open>IntV\<close>. \<open>Divide\<close> returns a \<open>FloatV\<close> of the quotient.
  \<open>Math.pow\<close> with a negative exponent is not an integer and the program holds it in
  an \<open>IntV\<close>; the model stops there, and where an operand or the result is outside
  the range in which doubles are exact (the program goes on with the rounded number).
\<close>

definition binOpInt :: "BinaryOp \<Rightarrow> int \<Rightarrow> int \<Rightarrow> error + VarAD Value" where
  "binOpInt op a b =
     (if exactInt a \<and> exactInt b then
        (case op of
           BPlus \<Rightarrow> exactIntV (a + b)
         | BMinus \<Rightarrow> exactIntV (a - b)
         | Multiply \<Rightarrow> exactIntV (a * b)
         | Divide \<Rightarrow> Inr (FloatV (constOf (Quot a b)))
         | Exp \<Rightarrow> (if 0 \<le> b then exactIntV (a ^ nat b) else Inl Unmodelled))
      else Inl Unmodelled)"

text \<open>
  The branch \<open>VectorV\<close>, \<open>VectorV\<close>: the \<open>switch\<close> has the cases \<open>BPlus\<close> and
  \<open>BMinus\<close> and no default, so for the other operators \<open>res\<close> is still
  \<open>undefined\<close> at \<open>return { tag: "VectorV", contents: res }\<close>.
\<close>

definition binOpVec :: "BinaryOp \<Rightarrow> VarAD Value \<Rightarrow> VarAD Value \<Rightarrow> error + VarAD Value" where
  "binOpVec op v1 v2 =
     (case op of
        BPlus \<Rightarrow>
          (case (v1, v2) of
             (VectorV v, VectorV w) \<Rightarrow> map_sum id VectorV (vadd v w)
           | _ \<Rightarrow> Inl Unmodelled)
      | BMinus \<Rightarrow>
          (case (v1, v2) of
             (VectorV v, VectorV w) \<Rightarrow> map_sum id VectorV (vsub v w)
           | _ \<Rightarrow> Inl Unmodelled)
      | _ \<Rightarrow> Inr VectorV_undefined)"

text \<open>The branch \<open>FloatV\<close>, \<open>VectorV\<close>: the \<open>switch\<close> has the one case \<open>Multiply\<close>.\<close>

definition binOpFloatVec :: "BinaryOp \<Rightarrow> VarAD Value \<Rightarrow> VarAD Value \<Rightarrow> error + VarAD Value" where
  "binOpFloatVec op v1 v2 =
     (case op of
        Multiply \<Rightarrow>
          (case (v1, v2) of
             (FloatV c, VectorV v) \<Rightarrow> Inr (VectorV (vmul c v))
           | _ \<Rightarrow> Inl Unmodelled)
      | _ \<Rightarrow> Inr VectorV_undefined)"

text \<open>The branch \<open>VectorV\<close>, \<open>FloatV\<close>: the \<open>switch\<close> has the one case \<open>Divide\<close>.\<close>

definition binOpVecFloat :: "BinaryOp \<Rightarrow> VarAD Value \<Rightarrow> VarAD Value \<Rightarrow> error + VarAD Value" where
  "binOpVecFloat op v1 v2 =
     (case op of
        Divide \<Rightarrow>
          (case (v1, v2) of
             (VectorV v, FloatV c) \<Rightarrow> Inr (VectorV (vdiv v c))
           | _ \<Rightarrow> Inl Unmodelled)
      | _ \<Rightarrow> Inr VectorV_undefined)"

text \<open>
  \<open>evalBinOp\<close>: the promotion of an \<open>IntV\<close> beside a \<open>FloatV\<close> calls \<open>evalBinOp\<close>
  again; then the chain of tests on the two tags, whose last \<open>else\<close> throws
  \<open>Error("the types of two operands to ... are not supported")\<close>.
\<close>

definition intTags :: "VarAD Value \<Rightarrow> VarAD Value \<Rightarrow> nat" where
  "intTags v1 v2 =
     (if tagOf v1 = ''IntV'' then 1 else 0) + (if tagOf v2 = ''IntV'' then 1 else 0)"

function evalBinOp :: "BinaryOp \<Rightarrow> VarAD Value \<Rightarrow> VarAD Value \<Rightarrow> error + VarAD Value" where
  "evalBinOp op v1 v2 =
     (if tagOf v1 = ''IntV'' \<and> tagOf v2 = ''FloatV'' then
        (case v1 of IntV n \<Rightarrow> evalBinOp op (intToFloat n) v2 | _ \<Rightarrow> Inl Unmodelled)
      else if tagOf v1 = ''FloatV'' \<and> tagOf v2 = ''IntV'' then
        (case v2 of IntV n \<Rightarrow> evalBinOp op v1 (intToFloat n) | _ \<Rightarrow> Inl Unmodelled)
      else if tagOf v1 = ''FloatV'' \<and> tagOf v2 = ''FloatV'' then binOpFloat op v1 v2
      else if tagOf v1 = ''IntV'' \<and> tagOf v2 = ''IntV'' then
        (case (v1, v2) of (IntV a, IntV b) \<Rightarrow> binOpInt op a b | _ \<Rightarrow> Inl Unmodelled)
      else if tagOf v1 = ''VectorV'' \<and> tagOf v2 = ''VectorV'' then binOpVec op v1 v2
      else if tagOf v1 = ''FloatV'' \<and> tagOf v2 = ''VectorV'' then binOpFloatVec op v1 v2
      else if tagOf v1 = ''VectorV'' \<and> tagOf v2 = ''FloatV'' then binOpVecFloat op v1 v2
      else Inl TypeMismatch)"
  by pat_completeness auto
termination
  by (relation "measure (\<lambda>(op, v1, v2). intTags v1 v2)")
     (auto simp: intTags_def intToFloat_def)

declare evalBinOp.simps [simp del]

text \<open>
  \<open>evalUOp\<close>: \<open>UPlus\<close> throws \<open>Error("unary plus is undefined")\<close> on the three
  supported tags; any other tag throws \<open>Error("unary op undefined on type ...")\<close>.
\<close>

definition evalUOp :: "UnaryOp \<Rightarrow> VarAD Value \<Rightarrow> error + VarAD Value" where
  "evalUOp op arg =
     (if tagOf arg = ''FloatV'' then
        (case op of
           UPlus \<Rightarrow> Inl InvalidOperand
         | UMinus \<Rightarrow> (case arg of FloatV x \<Rightarrow> Inr (FloatV (neg x)) | _ \<Rightarrow> Inl Unmodelled))
      else if tagOf arg = ''IntV'' then
        (case op of
           UPlus \<Rightarrow> Inl InvalidOperand
         | UMinus \<Rightarrow> (case arg of IntV n \<Rightarrow> Inr (IntV (- n)) | _ \<Rightarrow> Inl Unmodelled))
      else if tagOf arg = ''VectorV'' then
        (case op of
           UPlus \<Rightarrow> Inl InvalidOperand
         | UMinus \<Rightarrow> (case arg of VectorV v \<Rightarrow> Inr (VectorV (vneg v)) | _ \<Rightarrow> Inl Unmodelled))
      else Inl (Rejected ''unary op undefined on type''))"

subsection \<open>Paths, expressions and the translation\<close>

text \<open>A \<open>BindingForm\<close> is an object \<open>{tag, contents}\<close> whose contents is the name.\<close>

datatype BindingForm = BindingForm (bfTag: string) (bfContents: string)

datatype Path =
    FieldPath BindingForm string
  | PropertyPath BindingForm string string
  | AccessPath Path "int list"

text \<open>
  The contents of a \<open>Fix\<close>: a plain number, or a \<open>VarAD\<close> that \<open>floatValToExpr\<close>
  has put there (\<open>val.tag ? val : constOf(val)\<close> tells them apart).
\<close>

datatype FixContents = FixNumber number | FixVarAD VarAD

datatype AnnoFloat = Fix FixContents | Vary

text \<open>\<open>OtherExpr t\<close> is an expression with a tag \<open>t\<close> that \<open>evalExpr\<close> has no case for.\<close>

datatype Expr =
    IntLit int
  | StringLit string
  | BoolLit bool
  | AFloat AnnoFloat
  | UOp UnaryOp Expr
  | BinOp BinaryOp Expr Expr
  | Tuple "Expr list"
  | List "Expr list"
  | ListAccess Path int
  | Vector "Expr list"
  | Matrix "Expr list"
  | VectorAccess Path Expr
  | MatrixAccess Path "Expr list"
  | EPath Path
  | CompApp string "Expr list"
  | OtherExpr string

datatype TagExpr = OptEval Expr | Done "VarAD Value" | Pending "VarAD Value"

text \<open>
  A JavaScript object used as a dictionary: its own properties in enumeration order.
  \<open>map_of d k\<close> is \<open>d[k]\<close>, with \<open>None\<close> for \<open>undefined\<close>; \<open>dictSet\<close> is
  \<open>d[k] = v\<close>, which keeps the place of a key that is there and appends a new one.
  (Keys that are canonical array indices, which JavaScript enumerates first, and the
  properties inherited from \<open>Object.prototype\<close> are left out of the model.)
\<close>

type_synonym 'v dict = "(string \<times> 'v) list"

fun dictSet :: "string \<Rightarrow> 'v \<Rightarrow> 'v dict \<Rightarrow> 'v dict" where
  "dictSet k v [] = [(k, v)]"
| "dictSet k v ((k', v') # d) = (if k' = k then (k, v) # d else (k', v') # dictSet k v d)"

datatype FieldExpr = FExpr TagExpr | FGPI string "TagExpr dict"

record Translation =
  trMap :: "FieldExpr dict dict"
  warnings :: "string list"

text \<open>An \<open>ArgVal\<close>: a value, or a shape with its evaluated properties.\<close>

datatype ArgVal = Val "VarAD Value" | GPI string "VarAD Value dict"

subsection \<open>The path store\<close>

text \<open>
  What \<open>findExpr\<close> returns: the \<open>FGPI\<close> entry itself, a \<open>TagExpr\<close>, or
  \<open>undefined\<close> (the result of \<open>propDict[prop]\<close> for a property that is not there).
\<close>

datatype Found = FoundGPI string "TagExpr dict" | FoundExpr TagExpr | FoundUndefined

text \<open>
  \<open>trans.trMap[name.contents][field]\<close>: a TypeError when the name is not in \<open>trMap\<close>,
  \<open>undefined\<close> (here \<open>None\<close>) when the field is not in the name's dictionary.
\<close>

definition lookupField :: "Translation \<Rightarrow> BindingForm \<Rightarrow> string \<Rightarrow> error + FieldExpr option" where
  "lookupField tr name field =
     (case map_of (trMap tr) (bfContents name) of
        None \<Rightarrow> Inl JSTypeError
      | Some fs \<Rightarrow> Inr (map_of fs field))"

text \<open>
  \<open>findExpr\<close>. The throws are \<open>Error("Could not find field ... in translation")\<close>,
  \<open>Error("Could not find GPI ... in translation")\<close>,
  \<open>Error("field path leads to an expression, not a GPI")\<close> and \<open>Error("TODO")\<close>.
\<close>

fun findExpr :: "Translation \<Rightarrow> Path \<Rightarrow> error + Found" where
  "findExpr tr (FieldPath name field) =
     (case lookupField tr name field of
        Inl e \<Rightarrow> Inl e
      | Inr None \<Rightarrow> Inl UnresolvedPath
      | Inr (Some (FGPI t props)) \<Rightarrow> Inr (FoundGPI t props)
      | Inr (Some (FExpr te)) \<Rightarrow> Inr (FoundExpr te))"
| "findExpr tr (PropertyPath name field prop) =
     (case lookupField tr name field of
        Inl e \<Rightarrow> Inl e
      | Inr None \<Rightarrow> Inl UnresolvedPath
      | Inr (Some (FExpr te)) \<Rightarrow> Inl (Rejected ''field path leads to an expression, not a GPI'')
      | Inr (Some (FGPI t propDict)) \<Rightarrow>
          (case map_of propDict prop of
             None \<Rightarrow> Inr FoundUndefined
           | Some te \<Rightarrow> Inr (FoundExpr te)))"
| "findExpr tr (AccessPath p indices) = Inl Unimplemented"

text \<open>
  \<open>floatValToExpr\<close>, applied to \<open>expr.contents\<close> of a \<open>TagExpr\<close>: the contents of
  an \<open>OptEval\<close> is an expression, whose tag is never \<open>"FloatV"\<close>. The throw is
  \<open>Error("expected to insert vector elem of type float")\<close>.
\<close>

fun floatValToExpr :: "TagExpr \<Rightarrow> error + Expr" where
  "floatValToExpr (OptEval e) = Inl TypeMismatch"
| "floatValToExpr (Done v) =
     (case v of
        FloatV x \<Rightarrow> Inr (AFloat (Fix (FixVarAD x)))
      | FloatV_undefined \<Rightarrow> Inl Unmodelled
      | _ \<Rightarrow> Inl TypeMismatch)"
| "floatValToExpr (Pending v) =
     (case v of
        FloatV x \<Rightarrow> Inr (AFloat (Fix (FixVarAD x)))
      | FloatV_undefined \<Rightarrow> Inl Unmodelled
      | _ \<Rightarrow> Inl TypeMismatch)"

text \<open>
  \<open>expr.contents.contents\<close>, stored as an element of a vector value: a \<open>VarAD\<close>
  when \<open>expr\<close> holds a \<open>FloatV\<close>; anything else is not a \<open>VarAD\<close> and the model
  stops.
\<close>

fun rawContents :: "TagExpr \<Rightarrow> error + VarAD" where
  "rawContents (Done (FloatV x)) = Inr x"
| "rawContents (Pending (FloatV x)) = Inr x"
| "rawContents _ = Inl Unmodelled"

text \<open>
  \<open>arr[indices[0]] = v\<close> on a JavaScript array: an index inside the array overwrites,
  the index \<open>length\<close> appends. Every other write (a larger index, which leaves
  holes; a negative index or the \<open>undefined\<close> of an empty \<open>indices\<close>, which set a
  property that is not an element) succeeds in the program and gives an array that
  is not a list: the model stops.
\<close>

fun arraySet :: "'a list \<Rightarrow> int list \<Rightarrow> 'a \<Rightarrow> error + 'a list" where
  "arraySet arr [] v = Inl Unmodelled"
| "arraySet arr (i # rest) v =
     (if 0 \<le> i \<and> i < int (length arr) then Inr (arr[nat i := v])
      else if i = int (length arr) then Inr (arr @ [v])
      else Inl Unmodelled)"

text \<open>
  The two branches of the \<open>AccessPath\<close> case that write the element: into the
  \<open>Vector\<close> expression of an \<open>OptEval\<close>, or into the \<open>VectorV\<close> of a \<open>Done\<close>.
  The throws are \<open>Error("expected Vector")\<close> and \<open>Error("unexpected tag")\<close>; the
  right-hand side of the assignment is evaluated before the write.
\<close>

fun insertElem :: "TagExpr \<Rightarrow> int list \<Rightarrow> TagExpr \<Rightarrow> error + TagExpr" where
  "insertElem (OptEval res3) indices expr =
     (case res3 of
        Vector res4 \<Rightarrow>
          (case floatValToExpr expr of
             Inl e \<Rightarrow> Inl e
           | Inr x \<Rightarrow> map_sum id (\<lambda>a. OptEval (Vector a)) (arraySet res4 indices x))
      | _ \<Rightarrow> Inl TypeMismatch)"
| "insertElem (Done res3) indices expr =
     (if tagOf res3 \<noteq> ''VectorV'' then Inl TypeMismatch
      else
        (case res3 of
           VectorV res4 \<Rightarrow>
             (case rawContents expr of
                Inl e \<Rightarrow> Inl e
              | Inr x \<Rightarrow> map_sum id (\<lambda>a. Done (VectorV a)) (arraySet res4 indices x))
         | VectorV_undefined \<Rightarrow> Inl JSTypeError
         | _ \<Rightarrow> Inl Unmodelled))"
| "insertElem (Pending res3) indices expr = Inl (Rejected ''unexpected tag'')"

text \<open>\<open>trans.trMap[name.contents][field] = entry\<close>, for a name that is in \<open>trMap\<close>.\<close>

definition setField :: "Translation \<Rightarrow> BindingForm \<Rightarrow> string \<Rightarrow> FieldExpr \<Rightarrow> Translation" where
  "setField tr name field entry =
     tr\<lparr>trMap :=
       dictSet (bfContents name)
         (dictSet field entry (case map_of (trMap tr) (bfContents name) of
                                 None \<Rightarrow> [] | Some fs \<Rightarrow> fs))
         (trMap tr)\<rparr>"

text \<open>
  \<open>insertExpr\<close> mutates the translation it is given and returns it; the model returns
  the translation after the call, and \<open>Inl\<close> when the call throws, which it does
  before any write. In the \<open>PropertyPath\<close> cases \<open>const [, properties] = gpi.contents\<close>
  is a TypeError when \<open>gpi\<close> is \<open>undefined\<close> or an \<open>FExpr\<close> (whose contents is not
  iterable). The other throws are \<open>Error("did not expect GPI in vector access")\<close> and
  \<open>Error("should not have nested AccessPath in AccessPath")\<close>.
\<close>

fun insertExpr :: "Path \<Rightarrow> TagExpr \<Rightarrow> Translation \<Rightarrow> error + Translation" where
  "insertExpr (FieldPath name field) expr tr =
     (case lookupField tr name field of
        Inl e \<Rightarrow> Inl e
      | Inr _ \<Rightarrow> Inr (setField tr name field (FExpr expr)))"
| "insertExpr (PropertyPath name field prop) expr tr =
     (case lookupField tr name field of
        Inl e \<Rightarrow> Inl e
      | Inr None \<Rightarrow> Inl JSTypeError
      | Inr (Some (FExpr te)) \<Rightarrow> Inl JSTypeError
      | Inr (Some (FGPI t properties)) \<Rightarrow>
          Inr (setField tr name field (FGPI t (dictSet prop expr properties))))"
| "insertExpr (AccessPath (FieldPath name field) indices) expr tr =
     (case lookupField tr name field of
        Inl e \<Rightarrow> Inl e
      | Inr None \<Rightarrow> Inl JSTypeError
      | Inr (Some (FGPI t properties)) \<Rightarrow> Inl (Rejected ''did not expect GPI in vector access'')
      | Inr (Some (FExpr res2)) \<Rightarrow>
          (case insertElem res2 indices expr of
             Inl e \<Rightarrow> Inl e
           | Inr res2' \<Rightarrow> Inr (setField tr name field (FExpr res2'))))"
| "insertExpr (AccessPath (PropertyPath name field prop) indices) expr tr =
     (case lookupField tr name field of
        Inl e \<Rightarrow> Inl e
      | Inr None \<Rightarrow> Inl JSTypeError
      | Inr (Some (FExpr te)) \<Rightarrow> Inl JSTypeError
      | Inr (Some (FGPI t properties)) \<Rightarrow>
          (case map_of properties prop of
             None \<Rightarrow> Inl JSTypeError
           | Some res \<Rightarrow>
               (case insertElem res indices expr of
                  Inl e \<Rightarrow> Inl e
                | Inr res' \<Rightarrow>
                    Inr (setField tr name field (FGPI t (dictSet prop res' properties))))))"
| "insertExpr (AccessPath (AccessPath p is) indices) expr tr =
     Inl (Rejected ''should not have nested AccessPath in AccessPath'')"

definition doneFloat :: "VarAD \<Rightarrow> TagExpr" where
  "doneFloat n = Done (FloatV n)"

text \<open>
  \<open>insertVaryings\<close>: the \<open>reduce\<close> over the pairs. Each step mutates the one
  translation object, so when a step throws, the writes of the steps before it are
  there: the model returns the translation as it is at the end next to the outcome.
\<close>

fun insertVaryings :: "Translation \<Rightarrow> (Path \<times> VarAD) list \<Rightarrow> Translation \<times> error option" where
  "insertVaryings tr [] = (tr, None)"
| "insertVaryings tr ((path, val) # rest) =
     (case insertExpr path (doneFloat val) tr of
        Inl e \<Rightarrow> (tr, Some e)
      | Inr tr' \<Rightarrow> insertVaryings tr' rest)"

text \<open>
  \<open>genPathMap\<close>. The keys of the JavaScript \<open>Map\<close> are \<open>JSON.stringify(path)\<close>, which
  is one-to-one on paths, so the model keys the map by the path. \<open>None\<close> for an
  argument is a missing (\<open>undefined\<close>) array. The throw is
  \<open>Error("Different numbers of varying vars vs. paths: ...")\<close>.
\<close>

definition genPathMap :: "Path list option \<Rightarrow> 'a list option \<Rightarrow> error + (Path \<rightharpoonup> 'a)" where
  "genPathMap paths vals =
     (case (paths, vals) of
        (Some ps, Some vs) \<Rightarrow>
          (if length vs \<noteq> length ps then Inl LengthMismatch
           else Inr (foldl (\<lambda>res (path, v). res(path \<mapsto> v)) Map.empty (zip ps vs)))
      | _ \<Rightarrow> Inr Map.empty)"

subsection \<open>The expression evaluator and the path resolver\<close>

record OptDebugInfo =
  gradient :: "Path \<rightharpoonup> number"
  gradientPreconditioned :: "Path \<rightharpoonup> number"

text \<open>
  The argument that \<open>evalExpr\<close> hands to \<open>derivative\<close> and
  \<open>derivativePreconditioned\<close> is \<open>JSON.stringify(p.contents)\<close>, where \<open>p\<close> is the
  path expression itself or the access expression rewritten to
  \<open>AccessPath [p.contents[0], [p.contents[1].contents]]\<close>. For a \<open>VectorAccess\<close> the
  index is the contents of the index expression; for a \<open>MatrixAccess\<close> the second
  component is an array, whose \<open>contents\<close> is \<open>undefined\<close>.
\<close>

datatype DerivKey = KeyPath Path | KeyVectorAccess Path Expr | KeyMatrixAccess Path

text \<open>
  The functions that \<open>Evaluator.ts\<close> imports from files that are not part of the
  source, taken as parameters: the computation dictionary \<open>compDict\<close> (\<open>None\<close> for a
  name it does not have; an entry is applied to \<open>args.map(argValue)\<close>, which is
  a function of \<open>args\<close>, and may throw), its two entries that take the debug
  information and a key, \<open>checkComp\<close> (\<open>Some e\<close> when it throws) and
  \<open>valueAutodiffToNumber\<close>.
\<close>

record Env =
  compDict :: "string \<Rightarrow> (ArgVal list \<Rightarrow> error + VarAD Value) option"
  derivativeDict :: "string \<Rightarrow> OptDebugInfo option \<Rightarrow> DerivKey \<Rightarrow> error + VarAD Value"
  checkComp :: "string \<Rightarrow> ArgVal list \<Rightarrow> error option"
  valueAutodiffToNumber :: "VarAD Value \<Rightarrow> number Value"

text \<open>
  A \<open>VaryMap\<close> argument is optional: \<open>varyingMap?.get(JSON.stringify(path))\<close> is
  \<open>undefined\<close> when the map is missing or has no such key. Its values are \<open>VarAD\<close>
  objects, which are truthy, so \<open>if (varyingVal)\<close> holds exactly when the key is there.
\<close>

type_synonym VaryMap = "Path \<rightharpoonup> VarAD"

definition varyingGet :: "VaryMap option \<Rightarrow> Path \<Rightarrow> VarAD option" where
  "varyingGet varyingMap path = (case varyingMap of None \<Rightarrow> None | Some m \<Rightarrow> m path)"

text \<open>
  Modelled from the spec: \<open>floatVal\<close> of \<open>utils/OtherUtils\<close>, which is not part of the
  source; the resolver "returns a differentiable scalar \<open>FloatV\<close> wrapping the stored
  value".
\<close>

definition floatVal :: "VarAD \<Rightarrow> ArgVal" where
  "floatVal v = Val (FloatV v)"

text \<open>
  \<open>toFloatVal\<close> and \<open>toVecVal\<close>. The throws are \<open>Error("Expected floating type in list")\<close>,
  \<open>Error("Expected vector type in list")\<close> and
  \<open>Error("Expected value (non-GPI) type in list")\<close>.
\<close>

fun toFloatVal :: "ArgVal \<Rightarrow> error + VarAD" where
  "toFloatVal (Val res) =
     (if tagOf res = ''FloatV'' then
        (case res of FloatV x \<Rightarrow> Inr x | _ \<Rightarrow> Inl Unmodelled)
      else if tagOf res = ''IntV'' then
        (case res of IntV n \<Rightarrow> Inr (constOf (OfInt n)) | _ \<Rightarrow> Inl Unmodelled)
      else Inl TypeMismatch)"
| "toFloatVal (GPI t props) = Inl TypeMismatch"

fun toVecVal :: "ArgVal \<Rightarrow> error + VarAD list" where
  "toVecVal (Val res) =
     (if tagOf res = ''VectorV'' then
        (case res of VectorV v \<Rightarrow> Inr v | _ \<Rightarrow> Inl Unmodelled)
      else Inl TypeMismatch)"
| "toVecVal (GPI t props) = Inl TypeMismatch"

text \<open>\<open>xs.map(f)\<close> for an \<open>f\<close> that may throw: left to right, up to the first throw.\<close>

fun mapE :: "('a \<Rightarrow> error + 'b) \<Rightarrow> 'a list \<Rightarrow> error + 'b list" where
  "mapE f [] = Inr []"
| "mapE f (x # xs) =
     (case f x of
        Inl e \<Rightarrow> Inl e
      | Inr y \<Rightarrow> (case mapE f xs of Inl e \<Rightarrow> Inl e | Inr ys \<Rightarrow> Inr (y # ys)))"

text \<open>
  The same for an \<open>f\<close> that also mutates the translation: the translation is handed
  from one call to the next, and is returned as it is when a call throws.
\<close>

fun mapEv :: "('a \<Rightarrow> Translation \<Rightarrow> (error + 'b) \<times> Translation) \<Rightarrow> 'a list \<Rightarrow> Translation
    \<Rightarrow> (error + 'b list) \<times> Translation" where
  "mapEv f [] tr = (Inr [], tr)"
| "mapEv f (x # xs) tr =
     (case f x tr of
        (Inl e, tr1) \<Rightarrow> (Inl e, tr1)
      | (Inr y, tr1) \<Rightarrow>
          (case mapEv f xs tr1 of
             (Inl e, tr2) \<Rightarrow> (Inl e, tr2)
           | (Inr ys, tr2) \<Rightarrow> (Inr (y # ys), tr2)))"

text \<open>\<open>arr[i]\<close> for a number \<open>i\<close> that is an integer: \<open>None\<close> is \<open>undefined\<close>.\<close>

definition arrayGet :: "'a list \<Rightarrow> int \<Rightarrow> 'a option" where
  "arrayGet arr i = (if 0 \<le> i \<and> i < int (length arr) then Some (arr ! nat i) else None)"

text \<open>
  The end of the \<open>VectorAccess\<close> case, from the two evaluated operands on. The throws
  are \<open>Error("expected val")\<close>, \<open>Error("expected int")\<close>, \<open>Error("expected Vector")\<close>
  and \<open>Error("access out of bounds")\<close>, the last under the test
  \<open>i < 0 || i > length\<close>.
\<close>

definition vectorAccess :: "ArgVal \<Rightarrow> ArgVal \<Rightarrow> error + ArgVal" where
  "vectorAccess v1 v2 =
     (case v1 of
        GPI t props \<Rightarrow> Inl TypeMismatch
      | Val c1 \<Rightarrow>
          (case v2 of
             GPI t props \<Rightarrow> Inl TypeMismatch
           | Val c2 \<Rightarrow>
               (case c2 of
                  IntV i \<Rightarrow>
                    (if tagOf c1 = ''LListV'' then
                       (case c1 of
                          LListV llist \<Rightarrow>
                            (if i < 0 \<or> i > int (length llist) then Inl IndexOutOfBounds
                             else
                               (case arrayGet llist i of
                                  Some row \<Rightarrow> Inr (Val (VectorV row))
                                | None \<Rightarrow> Inr (Val VectorV_undefined)))
                        | _ \<Rightarrow> Inl Unmodelled)
                     else if tagOf c1 \<noteq> ''VectorV'' then Inl TypeMismatch
                     else
                       (case c1 of
                          VectorV vec \<Rightarrow>
                            (if i < 0 \<or> i > int (length vec) then Inl IndexOutOfBounds
                             else
                               (case arrayGet vec i of
                                  Some x \<Rightarrow> Inr (Val (FloatV x))
                                | None \<Rightarrow> Inr (Val FloatV_undefined)))
                        | VectorV_undefined \<Rightarrow> Inl JSTypeError
                        | _ \<Rightarrow> Inl Unmodelled))
                | _ \<Rightarrow> Inl TypeMismatch)))"

text \<open>The index of a \<open>MatrixAccess\<close>: a \<open>Val\<close> holding an \<open>IntV\<close>.\<close>

fun indexOf :: "ArgVal \<Rightarrow> error + int" where
  "indexOf (Val (IntV i)) = Inr i"
| "indexOf _ = Inl TypeMismatch"

text \<open>
  The end of the \<open>MatrixAccess\<close> case, from the two evaluated operands on. The throws
  are \<open>Error("expected val")\<close>, \<open>Error("expected int")\<close>, \<open>Error("expected Matrix")\<close>,
  \<open>Error("expected 2 indices to access matrix")\<close> and the two
  \<open>Error("... access out of bounds")\<close>, under the tests \<open>i < 0 || i > mat.length - 1\<close>
  and \<open>j < 0 || j > vec.length - 1\<close>.
\<close>

definition matrixAccess :: "ArgVal \<Rightarrow> ArgVal list \<Rightarrow> error + ArgVal" where
  "matrixAccess v1 v2s =
     (case mapE indexOf v2s of
        Inl e \<Rightarrow> Inl e
      | Inr indices \<Rightarrow>
          (case v1 of
             GPI t props \<Rightarrow> Inl TypeMismatch
           | Val c1 \<Rightarrow>
               (case c1 of
                  MatrixV mat \<Rightarrow>
                    (case indices of
                       [i, j] \<Rightarrow>
                         (if i < 0 \<or> i > int (length mat) - 1 then Inl IndexOutOfBounds
                          else
                            (let vec = mat ! nat i in
                             if j < 0 \<or> j > int (length vec) - 1 then Inl IndexOutOfBounds
                             else Inr (Val (FloatV (vec ! nat j)))))
                     | _ \<Rightarrow> Inl TypeMismatch)
                | _ \<Rightarrow> Inl TypeMismatch)))"

text \<open>
  The end of the \<open>List\<close> case. When the first element is a \<open>Val\<close> that is neither a
  \<open>FloatV\<close> nor a \<open>VectorV\<close>, no branch returns and control falls through into
  \<open>case "ListAccess"\<close>, which throws
  \<open>Error("List access expression not (yet) supported")\<close>; a first element that is a
  shape throws \<open>Error("unsupported element in list")\<close>.
\<close>

definition listOf :: "ArgVal list \<Rightarrow> error + ArgVal" where
  "listOf argVals =
     (case argVals of
        [] \<Rightarrow> Inr (Val (ListV []))
      | Val c # _ \<Rightarrow>
          (if tagOf c = ''FloatV'' then
             map_sum id (\<lambda>xs. Val (ListV xs)) (mapE toFloatVal argVals)
           else if tagOf c = ''VectorV'' then
             map_sum id (\<lambda>xs. Val (LListV xs)) (mapE toVecVal argVals)
           else Inl Unimplemented)
      | GPI t props # _ \<Rightarrow> Inl UnsupportedListElement)"

text \<open>
  The end of the \<open>Vector\<close> case: \<open>argVals[0].tag\<close> is a TypeError on an empty list;
  the throw is \<open>Error("expected val")\<close>.
\<close>

definition vectorOf :: "ArgVal list \<Rightarrow> error + ArgVal" where
  "vectorOf argVals =
     (case argVals of
        [] \<Rightarrow> Inl JSTypeError
      | GPI t props # _ \<Rightarrow> Inl TypeMismatch
      | Val c # _ \<Rightarrow>
          (if tagOf c = ''VectorV'' then
             map_sum id (\<lambda>xs. Val (MatrixV xs)) (mapE toVecVal argVals)
           else map_sum id (\<lambda>xs. Val (VectorV xs)) (mapE toFloatVal argVals)))"

text \<open>The end of the \<open>Tuple\<close> case; the throw is \<open>Error("Expected tuple of length 2")\<close>.\<close>

definition tupleOf :: "ArgVal list \<Rightarrow> error + ArgVal" where
  "tupleOf argVals =
     (case argVals of
        [a, b] \<Rightarrow>
          (case toFloatVal a of
             Inl e \<Rightarrow> Inl e
           | Inr x \<Rightarrow> (case toFloatVal b of Inl e \<Rightarrow> Inl e | Inr y \<Rightarrow> Inr (Val (TupV x y))))
      | _ \<Rightarrow> Inl (Rejected ''Expected tuple of length 2''))"

text \<open>
  The branch of \<open>CompApp\<close> for \<open>derivative\<close> and \<open>derivativePreconditioned\<close>, which
  evaluates nothing. The throws are \<open>Error("expected 1 argument to ...")\<close> and
  \<open>Error("expected 1 path as argument to ...")\<close>.
\<close>

definition derivativeApp :: "Env \<Rightarrow> string \<Rightarrow> Expr list \<Rightarrow> OptDebugInfo option \<Rightarrow> error + ArgVal" where
  "derivativeApp env fnName argExprs optDebugInfo =
     (case argExprs of
        [p] \<Rightarrow>
          (case p of
             EPath path \<Rightarrow>
               map_sum id Val (derivativeDict env fnName optDebugInfo (KeyPath path))
           | VectorAccess path e2 \<Rightarrow>
               map_sum id Val (derivativeDict env fnName optDebugInfo (KeyVectorAccess path e2))
           | MatrixAccess path e2 \<Rightarrow>
               map_sum id Val (derivativeDict env fnName optDebugInfo (KeyMatrixAccess path))
           | _ \<Rightarrow> Inl (Rejected ''expected 1 path as argument''))
      | _ \<Rightarrow> Inl (Rejected ''expected 1 argument''))"

text \<open>The end of the \<open>CompApp\<close> case for every other name, from the evaluated arguments on.\<close>

definition compApp :: "Env \<Rightarrow> string \<Rightarrow> ArgVal list \<Rightarrow> error + ArgVal" where
  "compApp env fnName args =
     (case checkComp env fnName args of
        Some e \<Rightarrow> Inl e
      | None \<Rightarrow>
          (case compDict env fnName of
             None \<Rightarrow> Inl JSTypeError
           | Some f \<Rightarrow> map_sum id Val (f args)))"

text \<open>
  \<open>props[propName]\<close> for the property dictionary of the \<open>FGPI\<close> entry at a field path,
  read from the translation as it is now: \<open>mapValues\<close> takes the keys of the
  dictionary when it starts and reads each value when it comes to it, and the
  resolver writes into that same dictionary in between.
\<close>

definition readProp :: "Translation \<Rightarrow> BindingForm \<Rightarrow> string \<Rightarrow> string \<Rightarrow> TagExpr option" where
  "readProp tr name field propName =
     (case lookupField tr name field of
        Inr (Some (FGPI t props)) \<Rightarrow> map_of props propName
      | _ \<Rightarrow> None)"

text \<open>
  \<open>evalExpr\<close> and \<open>resolvePath\<close>. Both mutate the translation they are given (the
  resolver writes \<open>Done\<close> cells into it), so the model takes the translation and
  returns it next to the outcome. The first argument after the environment is fuel:
  the number of nested calls allowed, since on a translation with a cycle the
  source recurses until the stack overflows. \<open>evalExprs\<close> is \<open>es.map\<close> of
  \<open>evalExpr\<close>, written here with \<open>mapEv\<close>.

  In \<open>resolvePath\<close> the throws are \<open>Error("TODO")\<close> for an \<open>AccessPath\<close> and
  \<open>Error("Field expression evaluated to GPI when this case was eliminated")\<close>;
  \<open>gpiOrExpr.tag\<close> is a TypeError when \<open>findExpr\<close> returned \<open>undefined\<close>. An \<open>FGPI\<close>
  entry is found under a \<open>FieldPath\<close> only.
\<close>

fun evalExpr :: "Env \<Rightarrow> nat \<Rightarrow> Expr \<Rightarrow> Translation \<Rightarrow> VaryMap option \<Rightarrow> OptDebugInfo option
      \<Rightarrow> (error + ArgVal) \<times> Translation"
  and resolvePath :: "Env \<Rightarrow> nat \<Rightarrow> Path \<Rightarrow> Translation \<Rightarrow> VaryMap option \<Rightarrow> OptDebugInfo option
      \<Rightarrow> (error + ArgVal) \<times> Translation" where
  "evalExpr env 0 e tr varyingVars optDebugInfo = (Inl StackOverflow, tr)"
| "evalExpr env (Suc n) e tr varyingVars optDebugInfo =
     (case e of
        IntLit i \<Rightarrow> (Inr (Val (IntV i)), tr)
      | StringLit s \<Rightarrow> (Inr (Val (StrV s)), tr)
      | BoolLit b \<Rightarrow> (Inr (Val (BoolV b)), tr)
      | AFloat Vary \<Rightarrow> (Inl UnsubstitutedVarying, tr)
      | AFloat (Fix (FixNumber x)) \<Rightarrow> (Inr (Val (FloatV (constOf x))), tr)
      | AFloat (Fix (FixVarAD x)) \<Rightarrow> (Inr (Val (FloatV x)), tr)
      | UOp uOp expr \<Rightarrow>
          (case evalExpr env n expr tr varyingVars optDebugInfo of
             (Inl err, tr1) \<Rightarrow> (Inl err, tr1)
           | (Inr (Val arg), tr1) \<Rightarrow> (map_sum id Val (evalUOp uOp arg), tr1)
           | (Inr (GPI t props), tr1) \<Rightarrow> (Inl (Rejected ''unary op undefined on type''), tr1))
      | BinOp binOp e1 e2 \<Rightarrow>
          (case mapEv (\<lambda>x t. evalExpr env n x t varyingVars optDebugInfo) [e1, e2] tr of
             (Inl err, tr1) \<Rightarrow> (Inl err, tr1)
           | (Inr [Val val1, Val val2], tr1) \<Rightarrow> (map_sum id Val (evalBinOp binOp val1 val2), tr1)
           | (Inr _, tr1) \<Rightarrow> (Inl TypeMismatch, tr1))
      | Tuple es \<Rightarrow>
          (case mapEv (\<lambda>x t. evalExpr env n x t varyingVars optDebugInfo) es tr of
             (Inl err, tr1) \<Rightarrow> (Inl err, tr1)
           | (Inr argVals, tr1) \<Rightarrow> (tupleOf argVals, tr1))
      | List es \<Rightarrow>
          (case mapEv (\<lambda>x t. evalExpr env n x t varyingVars optDebugInfo) es tr of
             (Inl err, tr1) \<Rightarrow> (Inl err, tr1)
           | (Inr argVals, tr1) \<Rightarrow> (listOf argVals, tr1))
      | ListAccess p i \<Rightarrow> (Inl Unimplemented, tr)
      | Vector es \<Rightarrow>
          (case mapEv (\<lambda>x t. evalExpr env n x t varyingVars optDebugInfo) es tr of
             (Inl err, tr1) \<Rightarrow> (Inl err, tr1)
           | (Inr argVals, tr1) \<Rightarrow> (vectorOf argVals, tr1))
      | Matrix es \<Rightarrow> (Inl Unimplemented, tr)
      | VectorAccess e1 e2 \<Rightarrow>
          (case resolvePath env n e1 tr varyingVars optDebugInfo of
             (Inl err, tr1) \<Rightarrow> (Inl err, tr1)
           | (Inr v1, tr1) \<Rightarrow>
               (case evalExpr env n e2 tr1 varyingVars optDebugInfo of
                  (Inl err, tr2) \<Rightarrow> (Inl err, tr2)
                | (Inr v2, tr2) \<Rightarrow> (vectorAccess v1 v2, tr2)))
      | MatrixAccess e1 e2 \<Rightarrow>
          (case resolvePath env n e1 tr varyingVars optDebugInfo of
             (Inl err, tr1) \<Rightarrow> (Inl err, tr1)
           | (Inr v1, tr1) \<Rightarrow>
               (case mapEv (\<lambda>x t. evalExpr env n x t varyingVars optDebugInfo) e2 tr1 of
                  (Inl err, tr2) \<Rightarrow> (Inl err, tr2)
                | (Inr v2s, tr2) \<Rightarrow> (matrixAccess v1 v2s, tr2)))
      | EPath p \<Rightarrow> resolvePath env n p tr varyingVars optDebugInfo
      | CompApp fnName argExprs \<Rightarrow>
          (if fnName = ''derivative'' \<or> fnName = ''derivativePreconditioned'' then
             (derivativeApp env fnName argExprs optDebugInfo, tr)
           else
             (case mapEv (\<lambda>x t. evalExpr env n x t varyingVars optDebugInfo) argExprs tr of
                (Inl err, tr1) \<Rightarrow> (Inl err, tr1)
              | (Inr args, tr1) \<Rightarrow> (compApp env fnName args, tr1)))
      | OtherExpr t \<Rightarrow> (Inl UnknownExpression, tr))"
| "resolvePath env 0 path tr varyingMap optDebugInfo = (Inl StackOverflow, tr)"
| "resolvePath env (Suc n) path tr varyingMap optDebugInfo =
     (case varyingGet varyingMap path of
        Some varyingVal \<Rightarrow> (Inr (floatVal varyingVal), tr)
      | None \<Rightarrow>
          (case path of
             AccessPath p is \<Rightarrow> (Inl Unimplemented, tr)
           | _ \<Rightarrow>
               (case findExpr tr path of
                  Inl err \<Rightarrow> (Inl err, tr)
                | Inr FoundUndefined \<Rightarrow> (Inl JSTypeError, tr)
                | Inr (FoundGPI type props) \<Rightarrow>
                    (case path of
                       FieldPath name field \<Rightarrow>
                         (case mapEv
                                 (\<lambda>propName t.
                                    (case readProp t name field propName of
                                       None \<Rightarrow> (Inl JSTypeError, t)
                                     | Some (OptEval pe) \<Rightarrow>
                                         (case evalExpr env n (EPath (PropertyPath name field propName))
                                                 t varyingMap optDebugInfo of
                                            (Inl err, t1) \<Rightarrow> (Inl err, t1)
                                          | (Inr (GPI gt gprops), t1) \<Rightarrow> (Inl Unmodelled, t1)
                                          | (Inr (Val val), t1) \<Rightarrow>
                                              (case insertExpr (PropertyPath name field propName)
                                                      (Done val) t1 of
                                                 Inl err \<Rightarrow> (Inl err, t1)
                                               | Inr transNew \<Rightarrow> (Inr (propName, val), transNew)))
                                     | Some (Done pv) \<Rightarrow>
                                         (case varyingGet varyingMap (PropertyPath name field propName) of
                                            Some varyingVal \<Rightarrow> (Inr (propName, FloatV varyingVal), t)
                                          | None \<Rightarrow> (Inr (propName, pv), t))
                                     | Some (Pending pv) \<Rightarrow>
                                         (case varyingGet varyingMap (PropertyPath name field propName) of
                                            Some varyingVal \<Rightarrow> (Inr (propName, FloatV varyingVal), t)
                                          | None \<Rightarrow> (Inr (propName, pv), t))))
                                 (map fst props) tr of
                            (Inl err, tr1) \<Rightarrow> (Inl err, tr1)
                          | (Inr evaledProps, tr1) \<Rightarrow> (Inr (GPI type evaledProps), tr1))
                     | _ \<Rightarrow> (Inl Unmodelled, tr))
                | Inr (FoundExpr (OptEval e)) \<Rightarrow>
                    (case evalExpr env n e tr varyingMap optDebugInfo of
                       (Inl err, tr1) \<Rightarrow> (Inl err, tr1)
                     | (Inr (GPI gt gprops), tr1) \<Rightarrow> (Inl UnexpectedGPI, tr1)
                     | (Inr (Val v), tr1) \<Rightarrow>
                         (case insertExpr path (Done v) tr1 of
                            Inl err \<Rightarrow> (Inl err, tr1)
                          | Inr transNew \<Rightarrow> (Inr (Val v), transNew)))
                | Inr (FoundExpr (Done v)) \<Rightarrow> (Inr (Val v), tr)
                | Inr (FoundExpr (Pending v)) \<Rightarrow> (Inr (Val v), tr))))"

text \<open>\<open>evalExprs\<close>.\<close>

definition evalExprs :: "Env \<Rightarrow> nat \<Rightarrow> Expr list \<Rightarrow> Translation \<Rightarrow> VaryMap option \<Rightarrow> OptDebugInfo option
      \<Rightarrow> (error + ArgVal list) \<times> Translation" where
  "evalExprs env n es tr varyingVars optDebugInfo =
     mapEv (\<lambda>x t. evalExpr env n x t varyingVars optDebugInfo) es tr"

subsection \<open>The shape evaluator\<close>

record Shape =
  shapeType :: string
  properties :: "number Value dict"

text \<open>
  The \<open>shapeExpr\<close> that \<open>evalShapes\<close> hands to \<open>evalShape\<close> is what \<open>findExpr\<close>
  returned, cast to \<open>IFGPI\<close>: a reference to the \<open>FGPI\<close> entry inside the translation
  (the entry at a field path; the resolver writes into its property dictionary and
  never replaces the entry), or something that is not an \<open>FGPI\<close> entry.
\<close>

datatype ShapeRef = GPIRef BindingForm string | NotGPIRef

definition shapeRef :: "Translation \<Rightarrow> Path \<Rightarrow> error + ShapeRef" where
  "shapeRef tr p =
     (case findExpr tr p of
        Inl e \<Rightarrow> Inl e
      | Inr (FoundGPI t props) \<Rightarrow>
          (case p of FieldPath name field \<Rightarrow> Inr (GPIRef name field) | _ \<Rightarrow> Inl Unmodelled)
      | Inr _ \<Rightarrow> Inr NotGPIRef)"

text \<open>
  \<open>evalShape\<close>. \<open>const [shapeType, propExprs] = shapeExpr.contents\<close> is a TypeError
  when \<open>shapeExpr\<close> is not an \<open>FGPI\<close> entry. \<open>mapValues\<close> reads each property when it
  comes to it (see \<open>readProp\<close>). It returns the list of shapes with the new shape at
  the end; the translation is mutated and returned.
\<close>

definition evalShape :: "Env \<Rightarrow> nat \<Rightarrow> ShapeRef \<Rightarrow> Translation \<Rightarrow> VaryMap option \<Rightarrow> Shape list
      \<Rightarrow> OptDebugInfo option \<Rightarrow> (error + Shape list) \<times> Translation" where
  "evalShape env n shapeExpr tr varyingVars shapes optDebugInfo =
     (case shapeExpr of
        NotGPIRef \<Rightarrow> (Inl JSTypeError, tr)
      | GPIRef name field \<Rightarrow>
          (case lookupField tr name field of
             Inr (Some (FGPI shapeType' propExprs)) \<Rightarrow>
               (case mapEv
                       (\<lambda>propName t.
                          (case readProp t name field propName of
                             None \<Rightarrow> (Inl JSTypeError, t)
                           | Some (OptEval pe) \<Rightarrow>
                               (case evalExpr env n pe t varyingVars optDebugInfo of
                                  (Inl err, t1) \<Rightarrow> (Inl err, t1)
                                | (Inr (GPI gt gprops), t1) \<Rightarrow> (Inl Unmodelled, t1)
                                | (Inr (Val res), t1) \<Rightarrow>
                                    (Inr (propName, valueAutodiffToNumber env res), t1))
                           | Some (Done pv) \<Rightarrow> (Inr (propName, valueAutodiffToNumber env pv), t)
                           | Some (Pending pv) \<Rightarrow> (Inr (propName, valueAutodiffToNumber env pv), t)))
                       (map fst propExprs) tr of
                  (Inl err, tr1) \<Rightarrow> (Inl err, tr1)
                | (Inr props, tr1) \<Rightarrow>
                    (Inr (shapes @ [\<lparr>shapeType = shapeType', properties = props\<rparr>]), tr1))
           | _ \<Rightarrow> (Inl Unmodelled, tr)))"

text \<open>The \<open>reduce\<close> of \<open>evalShapes\<close> over the shape expressions.\<close>

fun evalShapesLoop :: "Env \<Rightarrow> nat \<Rightarrow> ShapeRef list \<Rightarrow> Shape list \<Rightarrow> Translation \<Rightarrow> VaryMap option
      \<Rightarrow> OptDebugInfo option \<Rightarrow> (error + Shape list) \<times> Translation" where
  "evalShapesLoop env n [] currShapes tr varyingMap optDebugInfo = (Inr currShapes, tr)"
| "evalShapesLoop env n (e # es) currShapes tr varyingMap optDebugInfo =
     (case evalShape env n e tr varyingMap currShapes optDebugInfo of
        (Inl err, tr1) \<Rightarrow> (Inl err, tr1)
      | (Inr shapes1, tr1) \<Rightarrow> evalShapesLoop env n es shapes1 tr1 varyingMap optDebugInfo)"

text \<open>
  \<open>properties.name.contents === name\<close>: a TypeError when the shape has no property
  \<open>name\<close>; otherwise true when the contents is that string.
\<close>

definition nameIs :: "Shape \<Rightarrow> string \<Rightarrow> error + bool" where
  "nameIs shape name =
     (case map_of (properties shape) ''name'' of
        None \<Rightarrow> Inl JSTypeError
      | Some (StrV c) \<Rightarrow> Inr (c = name)
      | Some (OpaqueV t (PString c)) \<Rightarrow> Inr (c = name)
      | Some _ \<Rightarrow> Inr False)"

text \<open>
  \<open>shapesEvaled.find(...)!\<close>: the first shape whose name is \<open>name\<close>, or \<open>undefined\<close>
  (here \<open>None\<close>) when there is none; the \<open>!\<close> is erased by the compiler.
\<close>

fun findShape :: "Shape list \<Rightarrow> string \<Rightarrow> error + Shape option" where
  "findShape [] name = Inr None"
| "findShape (shape # rest) name =
     (case nameIs shape name of
        Inl e \<Rightarrow> Inl e
      | Inr True \<Rightarrow> Inr (Some shape)
      | Inr False \<Rightarrow> findShape rest name)"

record Params =
  lastGradient :: "number list option"
  lastGradientPreconditioned :: "number list option"

text \<open>
  The fields of a \<open>State\<close> object that \<open>evalShapes\<close> reads or writes. \<open>translation\<close>
  holds a reference to a translation object: its address in the store below. An
  element of \<open>shapes\<close> is a shape or \<open>undefined\<close>.
\<close>

record State =
  varyingValues :: "number list"
  varyingPaths :: "Path list"
  varyingMap :: VaryMap
  translation :: nat
  shapePaths :: "Path list"
  shapeOrdering :: "string list"
  shapes :: "Shape option list"
  params :: Params

text \<open>
  The objects that \<open>evalShapes\<close> shares with its caller: the state objects and the
  translation objects, each list indexed by address. A new object gets the next
  address.
\<close>

record Store =
  stateObjs :: "State list"
  translationObjs :: "Translation list"

text \<open>
  \<open>evalShapes\<close>, given the store and the address of \<open>s\<close>; it returns the store after
  the call and the address of the state object it returns, or the error it throws.
  In the order of the source: \<open>s.varyingMap\<close> is assigned; \<open>insertVaryings\<close> mutates
  the object \<open>s.translation\<close>; \<open>clone\<close> makes a new translation object, equal to it;
  the shape expressions are looked up in the clone and evaluated, which mutates the
  clone; the shapes are sorted; \<open>{ ...s, shapes: sortedShapesEvaled }\<close> is a new state
  object. (An address outside the store does not exist in the program.)
\<close>

definition evalShapes :: "Env \<Rightarrow> nat \<Rightarrow> Store \<Rightarrow> nat \<Rightarrow> Store \<times> (error + nat)" where
  "evalShapes env n h r =
     (if r \<ge> length (stateObjs h) \<or> translation (stateObjs h ! r) \<ge> length (translationObjs h)
      then (h, Inl Unmodelled)
      else
        (let s = stateObjs h ! r;
             varyingValuesDiff = map differentiable (varyingValues s)
         in case genPathMap (Some (varyingPaths s)) (Some varyingValuesDiff) of
              Inl err \<Rightarrow> (h, Inl err)
            | Inr m \<Rightarrow>
                (let s1 = s\<lparr>varyingMap := m\<rparr>;
                     h1 = h\<lparr>stateObjs := (stateObjs h)[r := s1]\<rparr>;
                     varyingMapList = zip (varyingPaths s) varyingValuesDiff
                 in case genPathMap (Some (varyingPaths s)) (lastGradient (params s)) of
                      Inl err \<Rightarrow> (h1, Inl err)
                    | Inr g \<Rightarrow>
                        (case genPathMap (Some (varyingPaths s))
                                (lastGradientPreconditioned (params s)) of
                           Inl err \<Rightarrow> (h1, Inl err)
                         | Inr gp \<Rightarrow>
                             (let optDebugInfo = \<lparr>gradient = g, gradientPreconditioned = gp\<rparr>;
                                  (transWithVarying, thrown) =
                                     insertVaryings (translationObjs h ! translation s) varyingMapList;
                                  h2 = h1\<lparr>translationObjs :=
                                            (translationObjs h)[translation s := transWithVarying]\<rparr>
                              in case thrown of
                                   Some err \<Rightarrow> (h2, Inl err)
                                 | None \<Rightarrow>
                                     (let c = length (translationObjs h2);
                                          h3 = h2\<lparr>translationObjs := translationObjs h2 @ [transWithVarying]\<rparr>
                                      in case mapE (shapeRef transWithVarying) (shapePaths s) of
                                           Inl err \<Rightarrow> (h3, Inl err)
                                         | Inr shapeExprs \<Rightarrow>
                                             (case evalShapesLoop env n shapeExprs [] transWithVarying
                                                     (Some m) (Some optDebugInfo) of
                                                (res, transEvaled) \<Rightarrow>
                                                  (let h4 = h3\<lparr>translationObjs :=
                                                               (translationObjs h3)[c := transEvaled]\<rparr>
                                                   in case res of
                                                        Inl err \<Rightarrow> (h4, Inl err)
                                                      | Inr shapesEvaled \<Rightarrow>
                                                          (case mapE (findShape shapesEvaled)
                                                                  (shapeOrdering s) of
                                                             Inl err \<Rightarrow> (h4, Inl err)
                                                           | Inr sortedShapesEvaled \<Rightarrow>
                                                               (h4\<lparr>stateObjs := stateObjs h4 @
                                                                     [s1\<lparr>shapes := sortedShapesEvaled\<rparr>]\<rparr>,
                                                                Inr (length (stateObjs h4))))))))))))"

subsection \<open>Cells of the translation\<close>

text \<open>
  The cell that a path leads to: the field entry under a name, and for a property
  path the property inside it; an \<open>AccessPath\<close> leads into the cell of its inner
  path. Names are compared by their contents, as \<open>trans.trMap[name.contents]\<close> does.
  Two paths are \<open>apart\<close> when a write through one leaves the cell of the other as it
  is: they lead to different fields, or to different properties of one shape.
\<close>

fun isAccessPath :: "Path \<Rightarrow> bool" where
  "isAccessPath (AccessPath p indices) = True"
| "isAccessPath _ = False"

fun fieldOf :: "Path \<Rightarrow> string \<times> string" where
  "fieldOf (FieldPath name field) = (bfContents name, field)"
| "fieldOf (PropertyPath name field prop) = (bfContents name, field)"
| "fieldOf (AccessPath p indices) = fieldOf p"

fun propOf :: "Path \<Rightarrow> string option" where
  "propOf (FieldPath name field) = None"
| "propOf (PropertyPath name field prop) = Some prop"
| "propOf (AccessPath p indices) = propOf p"

definition apart :: "Path \<Rightarrow> Path \<Rightarrow> bool" where
  "apart p q =
     (fieldOf p \<noteq> fieldOf q
      \<or> (propOf p \<noteq> None \<and> propOf q \<noteq> None \<and> propOf p \<noteq> propOf q))"

subsection \<open>Concrete inputs\<close>

text \<open>
  An environment for the concrete runs below: an empty computation dictionary, and a
  projection to plain numbers that reads the number of a leaf of the graph.
\<close>

fun leafNumber :: "VarAD \<Rightarrow> number" where
  "leafNumber (ConstOf x) = x"
| "leafNumber (Differentiable x) = x"
| "leafNumber _ = OfInt 0"

definition exampleEnv :: Env where
  "exampleEnv =
     \<lparr>compDict = (\<lambda>fnName. None),
      derivativeDict = (\<lambda>fnName optDebugInfo key. Inl Unimplemented),
      checkComp = (\<lambda>fnName args. None),
      valueAutodiffToNumber = map_Value leafNumber\<rparr>"

definition nameA :: BindingForm where
  "nameA = BindingForm ''BSubVar'' ''A''"

text \<open>
  A translation with the one name \<open>A\<close>: a vector \<open>A.x\<close> of length 2, a matrix
  \<open>A.m\<close> of two rows of length 2, an unevaluated field \<open>A.y = 2 + 1.5\<close>, an
  evaluated scalar \<open>A.z = 3\<close> and a shape \<open>A.shape\<close> with the one property \<open>r\<close>.
\<close>

definition exampleTranslation :: Translation where
  "exampleTranslation =
     \<lparr>trMap =
        [(''A'',
          [(''x'', FExpr (Done (VectorV [ConstOf (OfInt 1), ConstOf (OfInt 2)]))),
           (''m'', FExpr (Done (MatrixV [[ConstOf (OfInt 1), ConstOf (OfInt 2)],
                                        [ConstOf (OfInt 3), ConstOf (OfInt 4)]]))),
           (''y'', FExpr (OptEval (BinOp BPlus (IntLit 2) (AFloat (Fix (FixNumber (Quot 3 2))))))),
           (''z'', FExpr (Done (FloatV (ConstOf (OfInt 3))))),
           (''shape'', FGPI ''Circle'' [(''r'', OptEval (AFloat (Fix (FixNumber (OfInt 5)))))])])],
      warnings = []\<rparr>"

text \<open>A varying map that holds \<open>7\<close> for \<open>A.z\<close>.\<close>

definition exampleVaryMap :: VaryMap where
  "exampleVaryMap = [FieldPath nameA ''z'' \<mapsto> Differentiable (OfInt 7)]"

text \<open>
  A state for one pass: the translation has the varying field \<open>A.x\<close>, written as the
  expression \<open>3\<close>, and the shape \<open>A.shape\<close> named \<open>c\<close> whose radius is \<open>A.x\<close>; the
  optimizer's value for \<open>A.x\<close> is \<open>7\<close>; the declared ordering names \<open>c\<close> and a
  shape \<open>d\<close> that does not exist.
\<close>

definition passTranslation :: Translation where
  "passTranslation =
     \<lparr>trMap =
        [(''A'',
          [(''x'', FExpr (OptEval (AFloat (Fix (FixNumber (OfInt 3)))))),
           (''shape'', FGPI ''Circle'' [(''r'', OptEval (EPath (FieldPath nameA ''x''))),
                                       (''name'', Done (StrV ''c''))])])],
      warnings = []\<rparr>"

definition passState :: State where
  "passState =
     \<lparr>varyingValues = [OfInt 7],
      varyingPaths = [FieldPath nameA ''x''],
      varyingMap = Map.empty,
      translation = 0,
      shapePaths = [FieldPath nameA ''shape''],
      shapeOrdering = [''c'', ''d''],
      shapes = [],
      params = \<lparr>lastGradient = None, lastGradientPreconditioned = None\<rparr>\<rparr>"

definition passStore :: Store where
  "passStore = \<lparr>stateObjs = [passState], translationObjs = [passTranslation]\<rparr>"

section \<open>Properties\<close>

subsection \<open>Dictionaries and the path store\<close>

lemma map_of_dictSet: "map_of (dictSet k v d) k = Some v"
  by (induction d) auto

lemma lookupField_setField:
  "lookupField (setField tr name field entry) name field = Inr (Some entry)"
  by (simp add: lookupField_def setField_def map_of_dictSet)

lemma findExpr_insertExpr:
  assumes "insertExpr p x tr = Inr tr1" and "\<And>q idx. p \<noteq> AccessPath q idx"
  shows "findExpr tr1 p = Inr (FoundExpr x)"
proof (cases p)
  case (FieldPath name field)
  with assms(1) show ?thesis
    by (auto simp: lookupField_setField split: sum.splits)
next
  case (PropertyPath name field pr)
  with assms(1) show ?thesis
    by (auto simp: lookupField_setField map_of_dictSet
             split: sum.splits option.splits FieldExpr.splits)
next
  case (AccessPath q idx)
  with assms(2) show ?thesis by blast
qed

lemma insertElem_first_index:
  "insertElem t (i # j # rest) e = insertElem t [i] e"
  by (cases t) (auto split: Expr.splits Value.splits sum.splits)

subsection \<open>A cell that is \<open>Done\<close> stays as it is\<close>

lemma map_of_dictSet_other: "k' \<noteq> k \<Longrightarrow> map_of (dictSet k v d) k' = map_of d k'"
  by (induction d) auto

lemma lookupField_setField_same:
  "bfContents name' = bfContents name \<Longrightarrow>
     lookupField (setField tr name field entry) name' field = Inr (Some entry)"
  by (simp add: lookupField_def setField_def map_of_dictSet)

lemma lookupField_setField_other:
  assumes "lookupField tr name field = Inr x"
    and "bfContents name' \<noteq> bfContents name \<or> field' \<noteq> field"
  shows "lookupField (setField tr name field entry) name' field' = lookupField tr name' field'"
proof (cases "bfContents name' = bfContents name")
  case True
  with assms show ?thesis
    by (auto simp: lookupField_def setField_def map_of_dictSet map_of_dictSet_other
             split: option.splits)
next
  case False
  then show ?thesis
    by (simp add: lookupField_def setField_def map_of_dictSet_other)
qed

lemma insertExpr_keeps_done:
  assumes q: "findExpr tr q = Inr (FoundExpr (OptEval e))"
    and p: "findExpr tr p = Inr (FoundExpr (Done v))"
    and p1: "findExpr tr1 p = Inr (FoundExpr (Done v))"
    and ins: "insertExpr q x tr1 = Inr tr2"
  shows "findExpr tr2 p = Inr (FoundExpr (Done v))"
proof (cases q)
  case qf: (FieldPath qn qfld)
  show ?thesis
  proof (cases p)
    case pf: (FieldPath pn pfld)
    have diff: "bfContents pn \<noteq> bfContents qn \<or> pfld \<noteq> qfld"
      using q p qf pf by (auto simp: lookupField_def split: option.splits)
    from ins qf obtain y where lk: "lookupField tr1 qn qfld = Inr y"
      and tr2: "tr2 = setField tr1 qn qfld (FExpr x)"
      by (auto split: sum.splits)
    show ?thesis
      using p1 pf by (simp add: tr2 lookupField_setField_other [OF lk diff])
  next
    case pp: (PropertyPath pn pfld ppr)
    have diff: "bfContents pn \<noteq> bfContents qn \<or> pfld \<noteq> qfld"
      using q p qf pp
      by (auto simp: lookupField_def split: option.splits FieldExpr.splits)
    from ins qf obtain y where lk: "lookupField tr1 qn qfld = Inr y"
      and tr2: "tr2 = setField tr1 qn qfld (FExpr x)"
      by (auto split: sum.splits)
    show ?thesis
      using p1 pp by (simp add: tr2 lookupField_setField_other [OF lk diff])
  next
    case (AccessPath a b)
    with p show ?thesis by simp
  qed
next
  case qp: (PropertyPath qn qfld qpr)
  from ins qp obtain t props where lk: "lookupField tr1 qn qfld = Inr (Some (FGPI t props))"
    and tr2: "tr2 = setField tr1 qn qfld (FGPI t (dictSet qpr x props))"
    by (auto split: sum.splits option.splits FieldExpr.splits)
  show ?thesis
  proof (cases p)
    case pf: (FieldPath pn pfld)
    have diff: "bfContents pn \<noteq> bfContents qn \<or> pfld \<noteq> qfld"
      using q p qp pf
      by (auto simp: lookupField_def split: option.splits FieldExpr.splits)
    show ?thesis
      using p1 pf by (simp add: tr2 lookupField_setField_other [OF lk diff])
  next
    case pp: (PropertyPath pn pfld ppr)
    show ?thesis
    proof (cases "bfContents pn = bfContents qn \<and> pfld = qfld")
      case True
      then have same: "lookupField tr pn pfld = lookupField tr qn qfld"
            "lookupField tr1 pn pfld = lookupField tr1 qn qfld"
        by (simp_all add: lookupField_def)
      have "ppr \<noteq> qpr"
        using q p qp pp same
        by (auto split: sum.splits option.splits FieldExpr.splits)
      then show ?thesis
        using p1 pp True lk same
        by (simp add: tr2 lookupField_setField_same map_of_dictSet_other)
    next
      case False
      then have diff: "bfContents pn \<noteq> bfContents qn \<or> pfld \<noteq> qfld" by simp
      show ?thesis
        using p1 pp by (simp add: tr2 lookupField_setField_other [OF lk diff])
    qed
  next
    case (AccessPath a b)
    with p show ?thesis by simp
  qed
next
  case (AccessPath a b)
  with q show ?thesis by simp
qed

lemma mapEv_invariant:
  assumes step: "\<And>x t r t'. I t \<Longrightarrow> f x t = (r, t') \<Longrightarrow> I t'"
    and "I tr" and "mapEv f xs tr = (res, tr')"
  shows "I tr'"
  using assms(2,3)
proof (induction xs arbitrary: tr res tr')
  case Nil
  then show ?case by simp
next
  case (Cons x xs)
  obtain r1 t1 where fx: "f x tr = (r1, t1)" by (cases "f x tr")
  have I1: "I t1" using step [OF Cons.prems(1) fx] .
  show ?case
  proof (cases r1)
    case (Inl err)
    with Cons.prems(2) fx I1 show ?thesis by simp
  next
    case (Inr y)
    obtain r2 t2 where m: "mapEv f xs t1 = (r2, t2)" by (cases "mapEv f xs t1")
    have "I t2" using Cons.IH [OF I1 m] .
    with Cons.prems(2) fx Inr m show ?thesis
      by (auto split: sum.splits)
  qed
qed

lemma readProp_findExpr:
  "readProp t name field propName = Some te \<Longrightarrow>
     findExpr t (PropertyPath name field propName) = Inr (FoundExpr te)"
  by (auto simp: readProp_def split: sum.splits option.splits FieldExpr.splits)

lemma eval_keeps_done:
  "(\<forall>e tr res tr'. findExpr tr p = Inr (FoundExpr (Done v)) \<longrightarrow>
        evalExpr env n e tr vm dbg = (res, tr') \<longrightarrow> findExpr tr' p = Inr (FoundExpr (Done v)))
   \<and> (\<forall>q tr res tr'. findExpr tr p = Inr (FoundExpr (Done v)) \<longrightarrow>
        resolvePath env n q tr vm dbg = (res, tr') \<longrightarrow> findExpr tr' p = Inr (FoundExpr (Done v)))"
proof (induction n)
  case 0
  show ?case by simp
next
  case (Suc n)
  let ?I = "\<lambda>t. findExpr t p = Inr (FoundExpr (Done v))"
  have ev: "\<And>e t r t'. evalExpr env n e t vm dbg = (r, t') \<Longrightarrow> ?I t \<Longrightarrow> ?I t'"
    using Suc by blast
  have rp: "\<And>q t r t'. resolvePath env n q t vm dbg = (r, t') \<Longrightarrow> ?I t \<Longrightarrow> ?I t'"
    using Suc by blast
  have evs: "\<And>es t r t'. mapEv (\<lambda>x t. evalExpr env n x t vm dbg) es t = (r, t') \<Longrightarrow> ?I t \<Longrightarrow> ?I t'"
  proof -
    fix es t r t'
    assume m: "mapEv (\<lambda>x t. evalExpr env n x t vm dbg) es t = (r, t')" and i: "?I t"
    show "?I t'"
      by (rule mapEv_invariant [where I = ?I, OF _ i m]) (rule ev)
  qed
  have expr: "?I tr'" if i: "?I tr" and eq: "evalExpr env (Suc n) e tr vm dbg = (res, tr')"
    for e tr res tr'
  proof (cases e)
    case (AFloat a)
    with i eq show ?thesis
      by (auto split: AnnoFloat.splits FixContents.splits)
  next
    case (UOp u x)
    with i eq show ?thesis
      by (auto split: prod.splits sum.splits ArgVal.splits dest: ev)
  next
    case (BinOp b x y)
    obtain r1 t1 where m: "mapEv (\<lambda>x t. evalExpr env n x t vm dbg) [x, y] tr = (r1, t1)"
      by (cases "mapEv (\<lambda>x t. evalExpr env n x t vm dbg) [x, y] tr")
    have "?I t1" using evs [OF m i] .
    moreover have "tr' = t1"
      using eq BinOp m by (auto split: sum.splits list.splits ArgVal.splits)
    ultimately show ?thesis by simp
  next
    case (Tuple es)
    obtain r1 t1 where m: "mapEv (\<lambda>x t. evalExpr env n x t vm dbg) es tr = (r1, t1)"
      by (cases "mapEv (\<lambda>x t. evalExpr env n x t vm dbg) es tr")
    have "?I t1" using evs [OF m i] .
    moreover have "tr' = t1"
      using eq Tuple m by (auto split: sum.splits)
    ultimately show ?thesis by simp
  next
    case (List es)
    obtain r1 t1 where m: "mapEv (\<lambda>x t. evalExpr env n x t vm dbg) es tr = (r1, t1)"
      by (cases "mapEv (\<lambda>x t. evalExpr env n x t vm dbg) es tr")
    have "?I t1" using evs [OF m i] .
    moreover have "tr' = t1"
      using eq List m by (auto split: sum.splits)
    ultimately show ?thesis by simp
  next
    case (Vector es)
    obtain r1 t1 where m: "mapEv (\<lambda>x t. evalExpr env n x t vm dbg) es tr = (r1, t1)"
      by (cases "mapEv (\<lambda>x t. evalExpr env n x t vm dbg) es tr")
    have "?I t1" using evs [OF m i] .
    moreover have "tr' = t1"
      using eq Vector m by (auto split: sum.splits)
    ultimately show ?thesis by simp
  next
    case (VectorAccess q x)
    obtain r1 t1 where a: "resolvePath env n q tr vm dbg = (r1, t1)"
      by (cases "resolvePath env n q tr vm dbg")
    have i1: "?I t1" using rp [OF a i] .
    obtain r2 t2 where b: "evalExpr env n x t1 vm dbg = (r2, t2)"
      by (cases "evalExpr env n x t1 vm dbg")
    have i2: "?I t2" using ev [OF b i1] .
    have "tr' = t1 \<or> tr' = t2"
      using eq VectorAccess a b by (auto split: sum.splits)
    with i1 i2 show ?thesis by auto
  next
    case (MatrixAccess q xs)
    obtain r1 t1 where a: "resolvePath env n q tr vm dbg = (r1, t1)"
      by (cases "resolvePath env n q tr vm dbg")
    have i1: "?I t1" using rp [OF a i] .
    obtain r2 t2 where b: "mapEv (\<lambda>x t. evalExpr env n x t vm dbg) xs t1 = (r2, t2)"
      by (cases "mapEv (\<lambda>x t. evalExpr env n x t vm dbg) xs t1")
    have i2: "?I t2" using evs [OF b i1] .
    have "tr' = t1 \<or> tr' = t2"
      using eq MatrixAccess a b by (auto split: sum.splits)
    with i1 i2 show ?thesis by auto
  next
    case (EPath q)
    with i eq show ?thesis by (auto dest: rp)
  next
    case (CompApp f xs)
    obtain r1 t1 where m: "mapEv (\<lambda>x t. evalExpr env n x t vm dbg) xs tr = (r1, t1)"
      by (cases "mapEv (\<lambda>x t. evalExpr env n x t vm dbg) xs tr")
    have i1: "?I t1" using evs [OF m i] .
    have "tr' = tr \<or> tr' = t1"
      using eq CompApp m by (auto split: sum.splits if_splits)
    with i i1 show ?thesis by auto
  qed (use i eq in auto)
  have path: "?I tr'" if i: "?I tr" and eq: "resolvePath env (Suc n) q tr vm dbg = (res, tr')"
    for q tr res tr'
  proof (cases "varyingGet vm q")
    case (Some x)
    with i eq show ?thesis by simp
  next
    case None
    show ?thesis
    proof (cases "findExpr tr q")
      case (Inl err)
      with i eq None show ?thesis by (cases q) auto
    next
      case (Inr found)
      then have notAccess: "\<And>a b. q \<noteq> AccessPath a b" by auto
      show ?thesis
      proof (cases found)
        case FoundUndefined
        with i eq None Inr notAccess show ?thesis by (cases q) auto
      next
        case (FoundExpr te)
        show ?thesis
        proof (cases te)
          case (OptEval e)
          obtain r1 t1 where a: "evalExpr env n e tr vm dbg = (r1, t1)"
            by (cases "evalExpr env n e tr vm dbg")
          have i1: "?I t1" using ev [OF a i] .
          have cellq: "findExpr tr q = Inr (FoundExpr (OptEval e))"
            using Inr FoundExpr OptEval by simp
          have "tr' = t1 \<or> (\<exists>w. insertExpr q (Done w) t1 = Inr tr')"
            using eq None cellq notAccess a
            by (cases q) (auto split: sum.splits ArgVal.splits)
          then show ?thesis
            using i1 insertExpr_keeps_done [OF cellq i i1] by auto
        next
          case (Done w)
          with i eq None Inr FoundExpr notAccess show ?thesis by (cases q) auto
        next
          case (Pending w)
          with i eq None Inr FoundExpr notAccess show ?thesis by (cases q) auto
        qed
      next
        case (FoundGPI ty props)
        show ?thesis
        proof (cases q)
          case (FieldPath name field)
          let ?f = "\<lambda>propName t.
                      (case readProp t name field propName of
                         None \<Rightarrow> (Inl JSTypeError, t)
                       | Some (OptEval pe) \<Rightarrow>
                           (case evalExpr env n (EPath (PropertyPath name field propName))
                                   t vm dbg of
                              (Inl err, t1) \<Rightarrow> (Inl err, t1)
                            | (Inr (GPI gt gprops), t1) \<Rightarrow> (Inl Unmodelled, t1)
                            | (Inr (Val val), t1) \<Rightarrow>
                                (case insertExpr (PropertyPath name field propName)
                                        (Done val) t1 of
                                   Inl err \<Rightarrow> (Inl err, t1)
                                 | Inr transNew \<Rightarrow> (Inr (propName, val), transNew)))
                       | Some (Done pv) \<Rightarrow>
                           (case varyingGet vm (PropertyPath name field propName) of
                              Some varyingVal \<Rightarrow> (Inr (propName, FloatV varyingVal), t)
                            | None \<Rightarrow> (Inr (propName, pv), t))
                       | Some (Pending pv) \<Rightarrow>
                           (case varyingGet vm (PropertyPath name field propName) of
                              Some varyingVal \<Rightarrow> (Inr (propName, FloatV varyingVal), t)
                            | None \<Rightarrow> (Inr (propName, pv), t)))"
          have step: "?I t'" if it: "?I t" and fx: "?f x t = (r, t')" for x t r t'
          proof (cases "readProp t name field x")
            case None
            with it fx show ?thesis by simp
          next
            case (Some te)
            show ?thesis
            proof (cases te)
              case (OptEval pe)
              obtain r1 t1 where a: "evalExpr env n (EPath (PropertyPath name field x)) t vm dbg = (r1, t1)"
                by (cases "evalExpr env n (EPath (PropertyPath name field x)) t vm dbg")
              have i1: "?I t1" using ev [OF a it] .
              have cellq: "findExpr t (PropertyPath name field x) = Inr (FoundExpr (OptEval pe))"
                by (rule readProp_findExpr) (simp add: Some OptEval)
              have "t' = t1 \<or> (\<exists>w. insertExpr (PropertyPath name field x) (Done w) t1 = Inr t')"
                using fx Some OptEval a by (auto split: sum.splits ArgVal.splits)
              then show ?thesis
                using i1 insertExpr_keeps_done [OF cellq it i1] by auto
            next
              case (Done pv)
              with it fx Some show ?thesis by (auto split: option.splits)
            next
              case (Pending pv)
              with it fx Some show ?thesis by (auto split: option.splits)
            qed
          qed
          obtain r1 t1 where m: "mapEv ?f (map fst props) tr = (r1, t1)"
            by (cases "mapEv ?f (map fst props) tr")
          have i1: "?I t1"
            by (rule mapEv_invariant [where I = ?I, OF _ i m]) (rule step)
          have "tr' = t1"
            using eq None Inr FoundGPI FieldPath m by (auto split: sum.splits)
          with i1 show ?thesis by simp
        next
          case (PropertyPath name field pr)
          with i eq None Inr FoundGPI show ?thesis by auto
        next
          case (AccessPath a b)
          with notAccess show ?thesis by blast
        qed
      qed
    qed
  qed
  show ?case using expr path by blast
qed

subsection \<open>Where the varyings land\<close>

lemma setField_entry_keeps:
  assumes lk: "lookupField tr qn qfld = Inr y"
    and p: "findExpr tr p = Inr (FoundExpr c)"
    and diff: "fieldOf p \<noteq> (bfContents qn, qfld)"
  shows "findExpr (setField tr qn qfld entry) p = Inr (FoundExpr c)"
proof (cases p)
  case (FieldPath pn pfld)
  with diff have d: "bfContents pn \<noteq> bfContents qn \<or> pfld \<noteq> qfld" by auto
  show ?thesis
    using p FieldPath by (simp add: lookupField_setField_other [OF lk d])
next
  case (PropertyPath pn pfld ppr)
  with diff have d: "bfContents pn \<noteq> bfContents qn \<or> pfld \<noteq> qfld" by auto
  show ?thesis
    using p PropertyPath by (simp add: lookupField_setField_other [OF lk d])
next
  case (AccessPath a b)
  with p show ?thesis by simp
qed

lemma setField_prop_keeps:
  assumes lk: "lookupField tr qn qfld = Inr (Some (FGPI t props))"
    and p: "findExpr tr p = Inr (FoundExpr c)"
    and diff: "fieldOf p \<noteq> (bfContents qn, qfld) \<or> (propOf p \<noteq> None \<and> propOf p \<noteq> Some pr)"
  shows "findExpr (setField tr qn qfld (FGPI t (dictSet pr entry props))) p = Inr (FoundExpr c)"
proof (cases "fieldOf p = (bfContents qn, qfld)")
  case False
  then show ?thesis by (rule setField_entry_keeps [OF lk p])
next
  case True
  with diff have pd: "propOf p \<noteq> None" "propOf p \<noteq> Some pr" by auto
  show ?thesis
  proof (cases p)
    case (FieldPath pn pfld)
    with pd show ?thesis by simp
  next
    case (PropertyPath pn pfld ppr)
    with True have same: "bfContents pn = bfContents qn" "pfld = qfld" by auto
    then have lks: "lookupField tr pn pfld = lookupField tr qn qfld"
      by (simp add: lookupField_def)
    have ne: "ppr \<noteq> pr" using pd PropertyPath by simp
    show ?thesis
      using p PropertyPath lk lks same ne
      by (simp add: lookupField_setField_same map_of_dictSet_other)
  next
    case (AccessPath a b)
    with p show ?thesis by simp
  qed
qed

lemma insertExpr_keeps_apart:
  assumes p: "findExpr tr p = Inr (FoundExpr c)"
    and ap: "apart p q"
    and ins: "insertExpr q x tr = Inr tr2"
  shows "findExpr tr2 p = Inr (FoundExpr c)"
proof (cases q)
  case (FieldPath qn qfld)
  from ins FieldPath obtain y where lk: "lookupField tr qn qfld = Inr y"
    and tr2: "tr2 = setField tr qn qfld (FExpr x)"
    by (auto split: sum.splits)
  have "fieldOf p \<noteq> (bfContents qn, qfld)"
    using ap FieldPath by (simp add: apart_def)
  then show ?thesis
    unfolding tr2 by (rule setField_entry_keeps [OF lk p])
next
  case (PropertyPath qn qfld qpr)
  from ins PropertyPath obtain t props where
    lk: "lookupField tr qn qfld = Inr (Some (FGPI t props))"
    and tr2: "tr2 = setField tr qn qfld (FGPI t (dictSet qpr x props))"
    by (auto split: sum.splits option.splits FieldExpr.splits)
  have "fieldOf p \<noteq> (bfContents qn, qfld) \<or> (propOf p \<noteq> None \<and> propOf p \<noteq> Some qpr)"
    using ap PropertyPath by (auto simp: apart_def)
  then show ?thesis
    unfolding tr2 by (rule setField_prop_keeps [OF lk p])
next
  case outer: (AccessPath q' idx)
  show ?thesis
  proof (cases q')
    case (FieldPath qn qfld)
    from ins outer FieldPath obtain y entry where lk: "lookupField tr qn qfld = Inr y"
      and tr2: "tr2 = setField tr qn qfld (FExpr entry)"
      by (auto split: sum.splits option.splits FieldExpr.splits)
    have "fieldOf p \<noteq> (bfContents qn, qfld)"
      using ap outer FieldPath by (simp add: apart_def)
    then show ?thesis
      unfolding tr2 by (rule setField_entry_keeps [OF lk p])
  next
    case (PropertyPath qn qfld qpr)
    from ins outer PropertyPath obtain t props entry where
      lk: "lookupField tr qn qfld = Inr (Some (FGPI t props))"
      and tr2: "tr2 = setField tr qn qfld (FGPI t (dictSet qpr entry props))"
      by (auto split: sum.splits option.splits FieldExpr.splits)
    have "fieldOf p \<noteq> (bfContents qn, qfld) \<or> (propOf p \<noteq> None \<and> propOf p \<noteq> Some qpr)"
      using ap outer PropertyPath by (auto simp: apart_def)
    then show ?thesis
      unfolding tr2 by (rule setField_prop_keeps [OF lk p])
  next
    case (AccessPath a b)
    with ins outer show ?thesis by simp
  qed
qed

lemma insertVaryings_keeps_apart:
  assumes "insertVaryings tr pvs = (tr', None)"
    and "findExpr tr p = Inr (FoundExpr c)"
    and "\<And>j. j < length pvs \<Longrightarrow> apart p (fst (pvs ! j))"
  shows "findExpr tr' p = Inr (FoundExpr c)"
  using assms
proof (induction pvs arbitrary: tr)
  case Nil
  then show ?case by simp
next
  case (Cons pv rest)
  obtain q w where pv: "pv = (q, w)" by (cases pv)
  from Cons.prems(1) pv obtain tr1 where ins: "insertExpr q (doneFloat w) tr = Inr tr1"
    and rest: "insertVaryings tr1 rest = (tr', None)"
    by (auto split: sum.splits)
  have "apart p q" using Cons.prems(3) [of 0] pv by simp
  then have c1: "findExpr tr1 p = Inr (FoundExpr c)"
    using insertExpr_keeps_apart [OF Cons.prems(2) _ ins] by simp
  have later: "\<And>j. j < length rest \<Longrightarrow> apart p (fst (rest ! j))"
    using Cons.prems(3) [of "Suc j" for j] by simp
  show ?case by (rule Cons.IH [OF rest c1 later])
qed

lemma insertVaryings_writes_done:
  assumes "insertVaryings tr pvs = (tr', None)"
    and "i < length pvs"
    and "\<not> isAccessPath (fst (pvs ! i))"
    and "\<And>j. i < j \<Longrightarrow> j < length pvs \<Longrightarrow> apart (fst (pvs ! i)) (fst (pvs ! j))"
  shows "findExpr tr' (fst (pvs ! i)) = Inr (FoundExpr (Done (FloatV (snd (pvs ! i)))))"
  using assms
proof (induction pvs arbitrary: tr i)
  case Nil
  then show ?case by simp
next
  case (Cons pv rest)
  obtain q w where pv: "pv = (q, w)" by (cases pv)
  from Cons.prems(1) pv obtain tr1 where ins: "insertExpr q (doneFloat w) tr = Inr tr1"
    and rest: "insertVaryings tr1 rest = (tr', None)"
    by (auto split: sum.splits)
  show ?case
  proof (cases i)
    case 0
    with Cons.prems(3) pv have na: "\<And>a b. q \<noteq> AccessPath a b" by auto
    have c1: "findExpr tr1 q = Inr (FoundExpr (Done (FloatV w)))"
      using findExpr_insertExpr [OF ins na] by (simp add: doneFloat_def)
    have later: "\<And>j. j < length rest \<Longrightarrow> apart q (fst (rest ! j))"
      using Cons.prems(4) [of "Suc j" for j] 0 pv by simp
    show ?thesis
      using insertVaryings_keeps_apart [OF rest c1 later] 0 pv by simp
  next
    case (Suc k)
    have k: "k < length rest" using Cons.prems(2) Suc by simp
    have na: "\<not> isAccessPath (fst (rest ! k))" using Cons.prems(3) Suc by simp
    have later: "\<And>j. k < j \<Longrightarrow> j < length rest \<Longrightarrow> apart (fst (rest ! k)) (fst (rest ! j))"
      using Cons.prems(4) [of "Suc j" for j] Suc by simp
    show ?thesis
      using Cons.IH [OF rest k na later] Suc by simp
  qed
qed

lemma evalShapes_returns:
  assumes "r < length (stateObjs h)"
    and "translation (stateObjs h ! r) < length (translationObjs h)"
    and "snd (evalShapes env n h r) = Inr r'"
  shows "length (varyingValues (stateObjs h ! r)) = length (varyingPaths (stateObjs h ! r))
         \<and> insertVaryings (translationObjs h ! translation (stateObjs h ! r))
              (zip (varyingPaths (stateObjs h ! r))
                   (map differentiable (varyingValues (stateObjs h ! r)))) =
             (translationObjs (fst (evalShapes env n h r)) ! translation (stateObjs h ! r), None)"
  using assms
  by (auto simp: evalShapes_def Let_def nth_append genPathMap_def
           split: sum.splits prod.splits option.splits if_splits)

lemmas pass_defs =
  evalShapes_def passStore_def passState_def passTranslation_def nameA_def genPathMap_def
  differentiable_def doneFloat_def lookupField_def setField_def shapeRef_def evalShape_def
  readProp_def exampleEnv_def varyingGet_def nameIs_def floatVal_def constOf_def Let_def

subsection \<open>Claims\<close>

text \<open>
  C1 (as amended). The clone that a pass works on is taken after the varyings have been
  inserted, and \<open>insertExpr\<close> mutates the translation it is given. When
  \<open>evalShapes(s)\<close> returns, the translation object of the caller is the translation
  before the call after \<open>insertVaryings\<close>, whatever the evaluation has cached (those
  writes go to the clone), and the state that is returned refers to that same
  translation object. In it, the cell of every varying path that is a field or a
  property path holds \<open>Done\<close> of the \<open>FloatV\<close> of the differentiable value of that
  path, provided the varying paths after it are apart from it; and every other
  translation object that was there before the call is as it was.
\<close>

theorem evalShapes_writes_varyings_into_caller_translation:
  assumes "r < length (stateObjs h)"
    and "translation (stateObjs h ! r) < length (translationObjs h)"
    and "snd (evalShapes env n h r) = Inr r'"
  shows "translationObjs (fst (evalShapes env n h r)) ! translation (stateObjs h ! r) =
           fst (insertVaryings (translationObjs h ! translation (stateObjs h ! r))
                  (zip (varyingPaths (stateObjs h ! r))
                       (map differentiable (varyingValues (stateObjs h ! r)))))
         \<and> translation (stateObjs (fst (evalShapes env n h r)) ! r') =
             translation (stateObjs h ! r)
         \<and> (\<forall>i. i < length (varyingPaths (stateObjs h ! r)) \<longrightarrow>
                \<not> isAccessPath (varyingPaths (stateObjs h ! r) ! i) \<longrightarrow>
                (\<forall>j. i < j \<and> j < length (varyingPaths (stateObjs h ! r)) \<longrightarrow>
                     apart (varyingPaths (stateObjs h ! r) ! i) (varyingPaths (stateObjs h ! r) ! j)) \<longrightarrow>
                findExpr (translationObjs (fst (evalShapes env n h r)) ! translation (stateObjs h ! r))
                    (varyingPaths (stateObjs h ! r) ! i) =
                  Inr (FoundExpr (Done (FloatV (differentiable (varyingValues (stateObjs h ! r) ! i))))))
         \<and> (\<forall>a. a < length (translationObjs h) \<longrightarrow> a \<noteq> translation (stateObjs h ! r) \<longrightarrow>
                translationObjs (fst (evalShapes env n h r)) ! a = translationObjs h ! a)"
proof -
  let ?s = "stateObjs h ! r"
  let ?pvs = "zip (varyingPaths ?s) (map differentiable (varyingValues ?s))"
  let ?after = "translationObjs (fst (evalShapes env n h r)) ! translation ?s"
  have first: "?after = fst (insertVaryings (translationObjs h ! translation ?s) ?pvs)
         \<and> translation (stateObjs (fst (evalShapes env n h r)) ! r') = translation ?s"
    using assms
    by (auto simp: evalShapes_def Let_def nth_append
             split: sum.splits prod.splits option.splits if_splits)
  have others: "translationObjs (fst (evalShapes env n h r)) ! a = translationObjs h ! a"
    if "a < length (translationObjs h)" "a \<noteq> translation ?s" for a
    using assms that
    by (auto simp: evalShapes_def Let_def nth_append
             split: sum.splits prod.splits option.splits if_splits)
  from evalShapes_returns [OF assms] have len: "length (varyingValues ?s) = length (varyingPaths ?s)"
    and iv: "insertVaryings (translationObjs h ! translation ?s) ?pvs = (?after, None)"
    by simp_all
  have cell: "findExpr ?after (varyingPaths ?s ! i) =
                Inr (FoundExpr (Done (FloatV (differentiable (varyingValues ?s ! i)))))"
    if i: "i < length (varyingPaths ?s)"
      and na: "\<not> isAccessPath (varyingPaths ?s ! i)"
      and ap: "\<forall>j. i < j \<and> j < length (varyingPaths ?s) \<longrightarrow>
                 apart (varyingPaths ?s ! i) (varyingPaths ?s ! j)"
    for i
  proof -
    have li: "i < length ?pvs" using i len by simp
    have na': "\<not> isAccessPath (fst (?pvs ! i))" using na i len by simp
    have ap': "\<And>j. i < j \<Longrightarrow> j < length ?pvs \<Longrightarrow> apart (fst (?pvs ! i)) (fst (?pvs ! j))"
      using ap i len by simp
    show ?thesis
      using insertVaryings_writes_done [OF iv li na' ap'] i len by simp
  qed
  show ?thesis
    using first others cell by blast
qed

text \<open>
  The theorem for C1 on the concrete pass, whose hypotheses hold there: the cell
  \<open>A.x\<close> of the caller's translation was \<open>OptEval 3\<close> and is \<open>Done (FloatV 7)\<close>
  after the call, and the property \<open>r\<close> of the shape, which the pass has evaluated,
  is still unevaluated there.
\<close>

theorem evalShapes_writes_varyings_witness:
  "0 < length (stateObjs passStore)
   \<and> translation (stateObjs passStore ! 0) < length (translationObjs passStore)
   \<and> snd (evalShapes exampleEnv (Suc (Suc (Suc 0))) passStore 0) = Inr 1
   \<and> translationObjs (fst (evalShapes exampleEnv (Suc (Suc (Suc 0))) passStore 0)) ! 0 =
       fst (insertVaryings passTranslation [(FieldPath nameA ''x'', differentiable (OfInt 7))])
   \<and> translation (stateObjs (fst (evalShapes exampleEnv (Suc (Suc (Suc 0))) passStore 0)) ! 1) = 0
   \<and> findExpr passTranslation (FieldPath nameA ''x'') =
       Inr (FoundExpr (OptEval (AFloat (Fix (FixNumber (OfInt 3))))))
   \<and> findExpr (translationObjs (fst (evalShapes exampleEnv (Suc (Suc (Suc 0))) passStore 0)) ! 0)
        (FieldPath nameA ''x'') =
       Inr (FoundExpr (Done (FloatV (differentiable (OfInt 7)))))
   \<and> findExpr (translationObjs (fst (evalShapes exampleEnv (Suc (Suc (Suc 0))) passStore 0)) ! 0)
        (PropertyPath nameA ''shape'' ''r'') =
       Inr (FoundExpr (OptEval (EPath (FieldPath nameA ''x''))))"
proof -
  let ?after = "translationObjs (fst (evalShapes exampleEnv (Suc (Suc (Suc 0))) passStore 0)) ! 0"
  have h1: "0 < length (stateObjs passStore)"
    by (simp add: passStore_def)
  have h2: "translation (stateObjs passStore ! 0) < length (translationObjs passStore)"
    by (simp add: passStore_def passState_def)
  have h3: "snd (evalShapes exampleEnv (Suc (Suc (Suc 0))) passStore 0) = Inr 1"
    by (simp add: pass_defs)
  have sel: "translation (stateObjs passStore ! 0) = 0"
       "translationObjs passStore ! 0 = passTranslation"
       "varyingPaths (stateObjs passStore ! 0) = [FieldPath nameA ''x'']"
       "varyingValues (stateObjs passStore ! 0) = [OfInt 7]"
    by (simp_all add: passStore_def passState_def)
  have before: "findExpr passTranslation (FieldPath nameA ''x'') =
       Inr (FoundExpr (OptEval (AFloat (Fix (FixNumber (OfInt 3))))))"
    by (simp add: passTranslation_def nameA_def lookupField_def)
  note inst = evalShapes_writes_varyings_into_caller_translation [OF h1 h2 h3]
  have eq: "?after = fst (insertVaryings passTranslation [(FieldPath nameA ''x'', differentiable (OfInt 7))])"
    and addr: "translation (stateObjs (fst (evalShapes exampleEnv (Suc (Suc (Suc 0))) passStore 0)) ! 1) = 0"
    using inst by (simp_all add: sel)
  have cell: "findExpr ?after (FieldPath nameA ''x'') =
       Inr (FoundExpr (Done (FloatV (differentiable (OfInt 7)))))"
    using inst [THEN conjunct2, THEN conjunct2, THEN conjunct1, rule_format, of 0]
    by (simp add: sel del: findExpr.simps)
  have uncached: "findExpr ?after (PropertyPath nameA ''shape'' ''r'') =
       Inr (FoundExpr (OptEval (EPath (FieldPath nameA ''x''))))"
    unfolding eq
    by (simp add: passTranslation_def nameA_def lookupField_def setField_def doneFloat_def)
  show ?thesis
    using h1 h2 h3 eq addr before cell uncached by simp
qed

text \<open>
  C1 as stated fails: on the concrete pass the translation of the caller is not the
  same after \<open>evalShapes\<close> as before (\<open>A.x\<close> was \<open>OptEval 3\<close> and is now
  \<open>Done (FloatV 7)\<close>).
\<close>

theorem evalShapes_changes_caller_translation:
  "translationObjs (fst (evalShapes exampleEnv (Suc (Suc (Suc 0))) passStore 0)) ! 0
     \<noteq> translationObjs passStore ! 0"
  by (simp add: pass_defs)

text \<open>
  C2. The claim is that a \<open>VectorAccess\<close> with the index \<open>len\<close> fails with
  \<open>IndexOutOfBounds\<close>. The test of the source is \<open>i > vec.length\<close>: on the vector
  \<open>A.x\<close> of length 2 the index 2 passes it and the result is a \<open>FloatV\<close> whose
  contents is \<open>undefined\<close>, where \<open>MatrixAccess\<close>, which tests
  \<open>i > mat.length - 1\<close>, throws for the row index 2 of a matrix of two rows.
\<close>

theorem vectorAccess_at_length_returns_undefined:
  "evalExpr exampleEnv (Suc (Suc 0)) (VectorAccess (FieldPath nameA ''x'') (IntLit 2))
       exampleTranslation None None = (Inr (Val FloatV_undefined), exampleTranslation)
   \<and> evalExpr exampleEnv (Suc (Suc 0)) (MatrixAccess (FieldPath nameA ''m'') [IntLit 2, IntLit 0])
       exampleTranslation None None = (Inl IndexOutOfBounds, exampleTranslation)"
  by (simp add: nameA_def exampleTranslation_def varyingGet_def lookupField_def
        vectorAccess_def matrixAccess_def arrayGet_def)

text \<open>
  C3 as stated fails: \<open>IntV 2\<close> times a vector, and a vector divided by \<open>IntV 2\<close>,
  throw the error of unsupported operand types, while the same operations on the
  promoted integer return the vector.
\<close>

theorem evalBinOp_int_vector_counterexample:
  "evalBinOp Multiply (IntV 2) (VectorV [ConstOf (OfInt 3)]) = Inl TypeMismatch
   \<and> evalBinOp Multiply (intToFloat 2) (VectorV [ConstOf (OfInt 3)]) =
       Inr (VectorV (vmul (constOf (OfInt 2)) [ConstOf (OfInt 3)]))
   \<and> evalBinOp Divide (VectorV [ConstOf (OfInt 3)]) (IntV 2) = Inl TypeMismatch
   \<and> evalBinOp Divide (VectorV [ConstOf (OfInt 3)]) (intToFloat 2) =
       Inr (VectorV (vdiv [ConstOf (OfInt 3)] (constOf (OfInt 2))))"
  by (simp add: evalBinOp.simps intToFloat_def binOpFloatVec_def binOpVecFloat_def)

text \<open>
  C3 (as amended). \<open>evalBinOp\<close> promotes an \<open>IntV\<close> to a \<open>FloatV\<close> when the other
  operand is a \<open>FloatV\<close>, and only then: with an \<open>IntV\<close> and a \<open>VectorV\<close>, in either
  order and for every operator, it makes no promotion and fails with \<open>TypeMismatch\<close>.
\<close>

theorem evalBinOp_promotes_int_beside_float_only:
  "evalBinOp op (IntV n) (VectorV xs) = Inl TypeMismatch
   \<and> evalBinOp op (VectorV xs) (IntV n) = Inl TypeMismatch
   \<and> evalBinOp op (IntV n) (FloatV y) = evalBinOp op (intToFloat n) (FloatV y)
   \<and> evalBinOp op (FloatV y) (IntV n) = evalBinOp op (FloatV y) (intToFloat n)"
  by (simp add: evalBinOp.simps [of op "IntV n"] evalBinOp.simps [of op _ "IntV n"])

text \<open>The theorem for C3 at \<open>2\<close>, the vector \<open>[3]\<close> and the float \<open>1.5\<close>.\<close>

theorem evalBinOp_promotes_int_beside_float_only_witness:
  "evalBinOp Multiply (IntV 2) (VectorV [ConstOf (OfInt 3)]) = Inl TypeMismatch
   \<and> evalBinOp Divide (VectorV [ConstOf (OfInt 3)]) (IntV 2) = Inl TypeMismatch
   \<and> evalBinOp Multiply (IntV 2) (FloatV (ConstOf (Quot 3 2))) =
       Inr (FloatV (mul (constOf (OfInt 2)) (ConstOf (Quot 3 2))))"
  using evalBinOp_promotes_int_beside_float_only [of Multiply 2 "[ConstOf (OfInt 3)]" "ConstOf (Quot 3 2)"]
        evalBinOp_promotes_int_beside_float_only [of Divide 2 "[ConstOf (OfInt 3)]" "ConstOf (Quot 3 2)"]
  by (simp add: evalBinOp.simps [of _ "FloatV _" "FloatV _"] intToFloat_def binOpFloat_def)

text \<open>
  C4. The claim is that every pair of operands and operator outside the table fails
  with \<open>TypeMismatch\<close>. For the four examples of the claim the source returns a
  value instead, the \<open>VectorV\<close> whose contents is \<open>undefined\<close>: the \<open>switch\<close> of the
  branch has no case for the operator and no default. A pair of tags that no branch
  takes (here \<open>BoolV\<close> with \<open>VectorV\<close>) does fail with \<open>TypeMismatch\<close>.
\<close>

theorem evalBinOp_holes_return_undefined_vector:
  "evalBinOp Multiply (VectorV [ConstOf (OfInt 1)]) (VectorV [ConstOf (OfInt 2)]) = Inr VectorV_undefined
   \<and> evalBinOp Exp (VectorV [ConstOf (OfInt 1)]) (VectorV [ConstOf (OfInt 2)]) = Inr VectorV_undefined
   \<and> evalBinOp BPlus (FloatV (ConstOf (OfInt 1))) (VectorV [ConstOf (OfInt 2)]) = Inr VectorV_undefined
   \<and> evalBinOp Multiply (VectorV [ConstOf (OfInt 1)]) (FloatV (ConstOf (OfInt 2))) = Inr VectorV_undefined
   \<and> evalBinOp Multiply (BoolV True) (VectorV [ConstOf (OfInt 2)]) = Inl TypeMismatch"
  by (simp add: evalBinOp.simps binOpVec_def binOpFloatVec_def binOpVecFloat_def)

text \<open>
  C5 as stated fails: the write through an \<open>AccessPath\<close> with the two indices
  \<open>[0, 1]\<close> into the vector \<open>A.x\<close> does not fail; it overwrites element 0.
\<close>

theorem insertExpr_two_indices_counterexample:
  "insertExpr (AccessPath (FieldPath nameA ''x'') [0, 1]) (Done (FloatV (ConstOf (OfInt 9))))
       exampleTranslation =
     Inr (setField exampleTranslation nameA ''x''
            (FExpr (Done (VectorV [ConstOf (OfInt 9), ConstOf (OfInt 2)]))))"
  by (simp add: nameA_def exampleTranslation_def lookupField_def)

text \<open>
  C5 (as amended). \<open>insertExpr\<close> reads \<open>indices[0]\<close> and nothing else of the indices:
  with an \<open>AccessPath\<close> that carries \<open>[i, j, ...]\<close> it does exactly what it does with
  \<open>[i]\<close>; an \<open>AccessPath\<close> inside an \<open>AccessPath\<close> is rejected.
\<close>

theorem insertExpr_uses_first_index_only:
  "insertExpr (AccessPath p (i # j # rest)) e tr = insertExpr (AccessPath p [i]) e tr
   \<and> insertExpr (AccessPath (AccessPath q idx) indices) e tr =
       Inl (Rejected ''should not have nested AccessPath in AccessPath'')"
  by (cases p)
     (simp_all add: insertElem_first_index split: sum.splits option.splits FieldExpr.splits)

text \<open>The theorem for C5 at the indices \<open>[1, 0]\<close> on the vector \<open>A.x\<close>.\<close>

theorem insertExpr_uses_first_index_only_witness:
  "insertExpr (AccessPath (FieldPath nameA ''x'') [1, 0]) (Done (FloatV (ConstOf (OfInt 9))))
       exampleTranslation =
     Inr (setField exampleTranslation nameA ''x''
            (FExpr (Done (VectorV [ConstOf (OfInt 1), ConstOf (OfInt 9)]))))"
  using insertExpr_uses_first_index_only
          [of "FieldPath nameA ''x''" 1 0 "[]" "Done (FloatV (ConstOf (OfInt 9)))" exampleTranslation]
  by (simp add: nameA_def exampleTranslation_def lookupField_def)

text \<open>
  C6. The claim is that a name of \<open>shapeOrdering\<close> with no evaluated shape is a fatal
  error. On the concrete pass, whose ordering is \<open>c\<close>, \<open>d\<close> and whose one shape is
  \<open>c\<close>, \<open>evalShapes\<close> returns a state, and its \<open>shapes\<close> are the shape \<open>c\<close>
  followed by \<open>undefined\<close>.
\<close>

theorem evalShapes_missing_name_gives_undefined:
  "snd (evalShapes exampleEnv (Suc (Suc (Suc 0))) passStore 0) = Inr 1
   \<and> shapes (stateObjs (fst (evalShapes exampleEnv (Suc (Suc (Suc 0))) passStore 0)) ! 1) =
       [Some \<lparr>shapeType = ''Circle'',
              properties = [(''r'', FloatV (OfInt 7)), (''name'', StrV ''c'')]\<rparr>,
        None]"
  by (simp add: pass_defs)

text \<open>
  C7. For a path that is in the varying map, \<open>resolvePath\<close> returns the \<open>FloatV\<close> of
  the value stored there, for every translation, which it leaves as it is.
\<close>

theorem resolvePath_varying_first:
  "varyingGet vm p = Some v \<Longrightarrow>
     resolvePath env (Suc n) p tr vm optDebugInfo = (Inr (Val (FloatV v)), tr)"
  by (simp add: floatVal_def)

text \<open>
  The theorem for C7 at the path \<open>A.z\<close>, which holds \<open>Done (FloatV 3)\<close> in the
  translation and \<open>7\<close> in the varying map.
\<close>

theorem resolvePath_varying_first_witness:
  "varyingGet (Some exampleVaryMap) (FieldPath nameA ''z'') = Some (Differentiable (OfInt 7))
   \<and> findExpr exampleTranslation (FieldPath nameA ''z'') =
       Inr (FoundExpr (Done (FloatV (ConstOf (OfInt 3)))))
   \<and> resolvePath exampleEnv (Suc 0) (FieldPath nameA ''z'') exampleTranslation
        (Some exampleVaryMap) None =
       (Inr (Val (FloatV (Differentiable (OfInt 7)))), exampleTranslation)"
proof -
  have h: "varyingGet (Some exampleVaryMap) (FieldPath nameA ''z'') = Some (Differentiable (OfInt 7))"
    by (simp add: varyingGet_def exampleVaryMap_def)
  have f: "findExpr exampleTranslation (FieldPath nameA ''z'') =
       Inr (FoundExpr (Done (FloatV (ConstOf (OfInt 3)))))"
    by (simp add: exampleTranslation_def nameA_def lookupField_def)
  show ?thesis
    using resolvePath_varying_first [OF h, of exampleEnv 0 exampleTranslation None] h f
    by simp
qed

text \<open>
  C8. When a path is not in the varying map, its cell in the translation is
  \<open>OptEval e\<close> and \<open>resolvePath\<close> returns for it, then the result is a value, the cell
  of the path in the translation after the call is \<open>Done\<close> of that value, and
  resolving the path again returns the same result and changes nothing; this is still
  so after any further evaluation on that translation, which never writes to a cell
  that is \<open>Done\<close>.
\<close>

theorem resolvePath_memoizes:
  assumes nv: "varyingGet vm p = None"
    and cell: "findExpr tr p = Inr (FoundExpr (OptEval e))"
    and first: "resolvePath env (Suc n) p tr vm dbg = (Inr r, tr1)"
  shows "\<exists>v. r = Val v \<and> findExpr tr1 p = Inr (FoundExpr (Done v))
           \<and> resolvePath env (Suc k) p tr1 vm dbg = (Inr r, tr1)
           \<and> (\<forall>m e' res tr2. evalExpr env m e' tr1 vm dbg = (res, tr2) \<longrightarrow>
                 findExpr tr2 p = Inr (FoundExpr (Done v))
                 \<and> resolvePath env (Suc k) p tr2 vm dbg = (Inr r, tr2))"
proof -
  have notAccess: "\<And>q idx. p \<noteq> AccessPath q idx"
    using cell by auto
  obtain res tr0 where ev: "evalExpr env n e tr vm dbg = (res, tr0)"
    by (cases "evalExpr env n e tr vm dbg")
  from first nv cell notAccess ev obtain v where
    r: "r = Val v" and ins: "insertExpr p (Done v) tr0 = Inr tr1"
    by (cases p) (auto split: sum.splits ArgVal.splits)
  from ins notAccess have found: "findExpr tr1 p = Inr (FoundExpr (Done v))"
    by (rule findExpr_insertExpr)
  have hit: "resolvePath env (Suc k) p t vm dbg = (Inr (Val v), t)"
    if "findExpr t p = Inr (FoundExpr (Done v))" for t
    using nv that notAccess by (cases p) auto
  have later: "findExpr tr2 p = Inr (FoundExpr (Done v))"
    if "evalExpr env m e' tr1 vm dbg = (res', tr2)" for m e' res' tr2
    using eval_keeps_done [of p v env m vm dbg] found that by blast
  show ?thesis
    using r found hit later by blast
qed

text \<open>
  The theorem for C8 at the path \<open>A.y\<close>, whose cell is \<open>OptEval (2 + 1.5)\<close>; the
  evaluation in between is that of the shape \<open>A.shape\<close>, which writes its property
  \<open>r\<close> into the translation.
\<close>

theorem resolvePath_memoizes_witness:
  "varyingGet None (FieldPath nameA ''y'') = None
   \<and> findExpr exampleTranslation (FieldPath nameA ''y'') =
       Inr (FoundExpr (OptEval (BinOp BPlus (IntLit 2) (AFloat (Fix (FixNumber (Quot 3 2)))))))
   \<and> resolvePath exampleEnv (Suc (Suc (Suc 0))) (FieldPath nameA ''y'') exampleTranslation None None =
       (Inr (Val (FloatV (Add (ConstOf (OfInt 2)) (ConstOf (Quot 3 2))))),
        setField exampleTranslation nameA ''y''
          (FExpr (Done (FloatV (Add (ConstOf (OfInt 2)) (ConstOf (Quot 3 2)))))))
   \<and> findExpr (setField exampleTranslation nameA ''y''
               (FExpr (Done (FloatV (Add (ConstOf (OfInt 2)) (ConstOf (Quot 3 2)))))))
             (FieldPath nameA ''y'') =
         Inr (FoundExpr (Done (FloatV (Add (ConstOf (OfInt 2)) (ConstOf (Quot 3 2))))))
   \<and> resolvePath exampleEnv (Suc 0) (FieldPath nameA ''y'')
             (setField exampleTranslation nameA ''y''
               (FExpr (Done (FloatV (Add (ConstOf (OfInt 2)) (ConstOf (Quot 3 2)))))))
             None None =
            (Inr (Val (FloatV (Add (ConstOf (OfInt 2)) (ConstOf (Quot 3 2))))),
             setField exampleTranslation nameA ''y''
               (FExpr (Done (FloatV (Add (ConstOf (OfInt 2)) (ConstOf (Quot 3 2)))))))
   \<and> fst (evalExpr exampleEnv (Suc (Suc (Suc (Suc (Suc 0))))) (EPath (FieldPath nameA ''shape''))
             (setField exampleTranslation nameA ''y''
               (FExpr (Done (FloatV (Add (ConstOf (OfInt 2)) (ConstOf (Quot 3 2)))))))
             None None) =
         Inr (GPI ''Circle'' [(''r'', FloatV (ConstOf (OfInt 5)))])
   \<and> findExpr (snd (evalExpr exampleEnv (Suc (Suc (Suc (Suc (Suc 0))))) (EPath (FieldPath nameA ''shape''))
             (setField exampleTranslation nameA ''y''
               (FExpr (Done (FloatV (Add (ConstOf (OfInt 2)) (ConstOf (Quot 3 2)))))))
             None None))
          (FieldPath nameA ''y'') =
         Inr (FoundExpr (Done (FloatV (Add (ConstOf (OfInt 2)) (ConstOf (Quot 3 2))))))"
proof -
  let ?v = "FloatV (Add (ConstOf (OfInt 2)) (ConstOf (Quot 3 2)))"
  let ?tr1 = "setField exampleTranslation nameA ''y'' (FExpr (Done ?v))"
  let ?later = "evalExpr exampleEnv (Suc (Suc (Suc (Suc (Suc 0))))) (EPath (FieldPath nameA ''shape''))
                  ?tr1 None None"
  have nv: "varyingGet None (FieldPath nameA ''y'') = None"
    by (simp add: varyingGet_def)
  have cell: "findExpr exampleTranslation (FieldPath nameA ''y'') =
       Inr (FoundExpr (OptEval (BinOp BPlus (IntLit 2) (AFloat (Fix (FixNumber (Quot 3 2)))))))"
    by (simp add: exampleTranslation_def nameA_def lookupField_def)
  have lk: "lookupField exampleTranslation nameA ''y'' =
       Inr (Some (FExpr (OptEval (BinOp BPlus (IntLit 2) (AFloat (Fix (FixNumber (Quot 3 2))))))))"
    by (simp add: exampleTranslation_def nameA_def lookupField_def)
  have first: "resolvePath exampleEnv (Suc (Suc (Suc 0))) (FieldPath nameA ''y'') exampleTranslation None None =
       (Inr (Val ?v), ?tr1)"
    by (simp add: nv lk evalBinOp.simps intToFloat_def binOpFloat_def constOf_def add_def)
  have shape: "fst ?later = Inr (GPI ''Circle'' [(''r'', FloatV (ConstOf (OfInt 5)))])"
    by (simp add: varyingGet_def exampleTranslation_def nameA_def lookupField_def setField_def
          readProp_def constOf_def)
  have later: "?later = (fst ?later, snd ?later)"
    by simp
  show ?thesis
    using resolvePath_memoizes [OF nv cell first, of 0] nv cell first shape later
    by blast
qed

text \<open>
  C9. The claim is that \<open>findExpr\<close> fails with \<open>UnresolvedPath\<close> for a property that
  does not exist. For the property \<open>nope\<close> of the shape \<open>A.shape\<close> it returns
  \<open>undefined\<close>; a field that does not exist is the error of the claim, under either
  kind of path, and a name that does not exist is a TypeError of the runtime.
\<close>

theorem findExpr_missing_property_returns_undefined:
  "findExpr exampleTranslation (PropertyPath nameA ''shape'' ''nope'') = Inr FoundUndefined
   \<and> findExpr exampleTranslation (FieldPath nameA ''nope'') = Inl UnresolvedPath
   \<and> findExpr exampleTranslation (PropertyPath nameA ''nope'' ''r'') = Inl UnresolvedPath
   \<and> findExpr exampleTranslation (FieldPath (BindingForm ''BSubVar'' ''B'') ''x'') = Inl JSTypeError"
  by (simp add: exampleTranslation_def nameA_def lookupField_def)

text \<open>
  C10. \<open>evalShapes\<close> assigns the new path map to the \<open>varyingMap\<close> field of the state
  object it is given (when the paths and the values have the same length, so that the
  map is built): after the call that object is the old one with the new map,
  whether the call returns or throws later, and the state that is returned is another
  object, with the same map.
\<close>

theorem evalShapes_assigns_varyingMap_of_input_state:
  assumes "r < length (stateObjs h)"
    and "translation (stateObjs h ! r) < length (translationObjs h)"
    and "length (varyingValues (stateObjs h ! r)) = length (varyingPaths (stateObjs h ! r))"
  shows "\<exists>m. genPathMap (Some (varyingPaths (stateObjs h ! r)))
               (Some (map differentiable (varyingValues (stateObjs h ! r)))) = Inr m
          \<and> stateObjs (fst (evalShapes env n h r)) ! r = (stateObjs h ! r)\<lparr>varyingMap := m\<rparr>
          \<and> (\<forall>r'. snd (evalShapes env n h r) = Inr r' \<longrightarrow>
                r' \<noteq> r \<and> varyingMap (stateObjs (fst (evalShapes env n h r)) ! r') = m)"
  using assms
  by (auto simp: evalShapes_def Let_def genPathMap_def nth_append
           split: sum.splits prod.splits option.splits)

text \<open>
  The theorem for C10 on the concrete pass: the state object of the caller has no
  entry for \<open>A.x\<close> before the call and the entry \<open>7\<close> after it.
\<close>

theorem evalShapes_assigns_varyingMap_witness:
  "0 < length (stateObjs passStore)
   \<and> translation (stateObjs passStore ! 0) < length (translationObjs passStore)
   \<and> length (varyingValues (stateObjs passStore ! 0)) = length (varyingPaths (stateObjs passStore ! 0))
   \<and> varyingMap (stateObjs passStore ! 0) (FieldPath nameA ''x'') = None
   \<and> varyingMap (stateObjs (fst (evalShapes exampleEnv (Suc (Suc (Suc 0))) passStore 0)) ! 0)
        (FieldPath nameA ''x'') = Some (Differentiable (OfInt 7))
   \<and> snd (evalShapes exampleEnv (Suc (Suc (Suc 0))) passStore 0) = Inr 1"
proof -
  have h1: "0 < length (stateObjs passStore)"
    by (simp add: passStore_def)
  have h2: "translation (stateObjs passStore ! 0) < length (translationObjs passStore)"
    by (simp add: passStore_def passState_def)
  have h3: "length (varyingValues (stateObjs passStore ! 0)) = length (varyingPaths (stateObjs passStore ! 0))"
    by (simp add: passStore_def passState_def)
  have m: "genPathMap (Some (varyingPaths (stateObjs passStore ! 0)))
               (Some (map differentiable (varyingValues (stateObjs passStore ! 0)))) =
             Inr [FieldPath nameA ''x'' \<mapsto> Differentiable (OfInt 7)]"
    by (simp add: passStore_def passState_def genPathMap_def differentiable_def)
  have old: "varyingMap (stateObjs passStore ! 0) (FieldPath nameA ''x'') = None"
    by (simp add: passStore_def passState_def)
  have ret: "snd (evalShapes exampleEnv (Suc (Suc (Suc 0))) passStore 0) = Inr 1"
    by (simp add: pass_defs)
  show ?thesis
    using evalShapes_assigns_varyingMap_of_input_state [OF h1 h2 h3, of exampleEnv "Suc (Suc (Suc 0))"]
          h1 h2 h3 m old ret
    by auto
qed

end
